theory Spec2Isabelle
  imports Complex_Main "HOL-Library.Word" "HOL-Library.Monad_Syntax"
begin

section \<open>GLSL values and built-in functions\<close>

text \<open>
  The shaders compute on \<^verbatim>\<open>highp float\<close>; the embedding reads every float as a
  real number, so rounding, infinities and NaN are outside the model.  A GLSL
  \<^verbatim>\<open>int\<close> is only ever compared or used as a small loop counter here and is read
  as an integer.  Vectors are tuples of their components.
\<close>

type_synonym vec2 = "real \<times> real"
type_synonym vec3 = "real \<times> real \<times> real"
type_synonym vec4 = "real \<times> real \<times> real \<times> real"

text \<open>\<^verbatim>\<open>fract(x) = x - floor(x)\<close>, \<^verbatim>\<open>mix(a,b,t) = a*(1-t) + b*t\<close>,
  \<^verbatim>\<open>clamp(x,lo,hi) = min(max(x,lo),hi)\<close> as the GLSL ES 3.0 specification defines them.\<close>

definition fract :: "real \<Rightarrow> real" where
  "fract x = x - of_int \<lfloor>x\<rfloor>"

definition mix :: "real \<Rightarrow> real \<Rightarrow> real \<Rightarrow> real" where
  "mix a b t = a * (1 - t) + b * t"

definition clamp :: "real \<Rightarrow> real \<Rightarrow> real \<Rightarrow> real" where
  "clamp x lo hi = min (max x lo) hi"

definition smoothstep :: "real \<Rightarrow> real \<Rightarrow> real \<Rightarrow> real" where
  "smoothstep e0 e1 x = (let t = clamp ((x - e0) / (e1 - e0)) 0 1 in t * t * (3 - 2 * t))"

fun fract3 :: "vec3 \<Rightarrow> vec3" where
  "fract3 (x, y, z) = (fract x, fract y, fract z)"

fun floor3 :: "vec3 \<Rightarrow> vec3" where
  "floor3 (x, y, z) = (of_int \<lfloor>x\<rfloor>, of_int \<lfloor>y\<rfloor>, of_int \<lfloor>z\<rfloor>)"

fun add3 :: "vec3 \<Rightarrow> vec3 \<Rightarrow> vec3" where
  "add3 (a, b, c) (x, y, z) = (a + x, b + y, c + z)"

fun adds3 :: "vec3 \<Rightarrow> real \<Rightarrow> vec3" where
  "adds3 (x, y, z) s = (x + s, y + s, z + s)"

fun scale3 :: "vec3 \<Rightarrow> real \<Rightarrow> vec3" where
  "scale3 (x, y, z) s = (x * s, y * s, z * s)"

fun dot3 :: "vec3 \<Rightarrow> vec3 \<Rightarrow> real" where
  "dot3 (a, b, c) (x, y, z) = a * x + b * y + c * z"

fun yzx :: "vec3 \<Rightarrow> vec3" where
  "yzx (x, y, z) = (y, z, x)"

section \<open>NoiseField: \<^verbatim>\<open>h31\<close>, \<^verbatim>\<open>vnoise\<close>, \<^verbatim>\<open>fbm\<close> (fireball-vert.glsl, lines 46-70)\<close>

text \<open>
  \<^verbatim>\<open>float h31(vec3 p){
    p = fract(p * 0.3183099 + vec3(0.1,0.2,0.3));
    p += dot(p, p.yzx + 19.19);
    return fract(p.x * p.y * p.z * 93.733); }\<close>
\<close>

definition h31 :: "vec3 \<Rightarrow> real" where
  "h31 p =
    (let p1 = fract3 (add3 (scale3 p 0.3183099) (0.1, 0.2, 0.3));
         p2 = adds3 p1 (dot3 p1 (adds3 (yzx p1) 19.19))
     in case p2 of (x, y, z) \<Rightarrow> fract (x * y * z * 93.733))"

text \<open>
  \<^verbatim>\<open>float vnoise(vec3 p){
    vec3 i=floor(p), f=fract(p);
    vec3 u=f*f*(3.0-2.0*f);
    float n000=h31(i+vec3(0,0,0)), n100=h31(i+vec3(1,0,0)); ...
    float nx00=mix(n000,n100,u.x), nx10=mix(n010,n110,u.x);
    float nxy0=mix(nx00,nx10,u.y);
    float nx01=mix(n001,n101,u.x), nx11=mix(n011,n111,u.x);
    float nxy1=mix(nx01,nx11,u.y);
    return mix(nxy0,nxy1,u.z); }\<close>
\<close>

definition fade :: "real \<Rightarrow> real" where
  "fade f = f * f * (3 - 2 * f)"

definition vnoise :: "vec3 \<Rightarrow> real" where
  "vnoise p =
    (let i = floor3 p;
         f = fract3 p;
         u = (case f of (fx, fy, fz) \<Rightarrow> (fade fx, fade fy, fade fz));
         n000 = h31 (add3 i (0, 0, 0)); n100 = h31 (add3 i (1, 0, 0));
         n010 = h31 (add3 i (0, 1, 0)); n110 = h31 (add3 i (1, 1, 0));
         n001 = h31 (add3 i (0, 0, 1)); n101 = h31 (add3 i (1, 0, 1));
         n011 = h31 (add3 i (0, 1, 1)); n111 = h31 (add3 i (1, 1, 1))
     in case u of (ux, uy, uz) \<Rightarrow>
       (let nx00 = mix n000 n100 ux; nx10 = mix n010 n110 ux;
            nxy0 = mix nx00 nx10 uy;
            nx01 = mix n001 n101 ux; nx11 = mix n011 n111 ux;
            nxy1 = mix nx01 nx11 uy
        in mix nxy0 nxy1 uz))"

text \<open>
  \<^verbatim>\<open>float fbm(vec3 p, int oct){
    float a=0.5, f=1.0, s=0.0;
    for(int i=0;i<8;i++){ if(i>=oct) break; s += a * vnoise(p * f); f *= 2.02; a *= 0.5; }
    return s; }\<close>
  The loop is the recursive function \<open>fbm_loop\<close> on the loop variables
  \<open>i\<close>, \<open>a\<close>, \<open>f\<close>, \<open>s\<close>; both exits (the bound \<open>i < 8\<close> and the
  \<^verbatim>\<open>break\<close>) return the accumulated sum.
\<close>

function fbm_loop :: "vec3 \<Rightarrow> int \<Rightarrow> int \<Rightarrow> real \<Rightarrow> real \<Rightarrow> real \<Rightarrow> real" where
  "fbm_loop p oct i a f s =
    (if i < 8 then
       (if i \<ge> oct then s
        else fbm_loop p oct (i + 1) (a * 0.5) (f * 2.02) (s + a * vnoise (scale3 p f)))
     else s)"
  by pat_completeness auto
termination
  by (relation "measure (\<lambda>(p, oct, i, a, f, s). nat (8 - i))") auto

definition fbm :: "vec3 \<Rightarrow> int \<Rightarrow> real" where
  "fbm p oct = fbm_loop p oct 0 0.5 1.0 0.0"

text \<open>The specification's description of value noise: the sum over the eight
  corners of the lattice cell of the hash at the corner times the product of the
  per-axis weights, the weight of the far corner on an axis being
  \<open>w t = 3 t\<^sup>2 - 2 t\<^sup>3\<close> of the fractional coordinate and that of the near corner
  \<open>1 - w t\<close>.\<close>

definition w_spec :: "real \<Rightarrow> real" where
  "w_spec t = 3 * t ^ 2 - 2 * t ^ 3"

definition axis_weight :: "nat \<Rightarrow> real \<Rightarrow> real" where
  "axis_weight d t = (if d = 0 then 1 - w_spec t else w_spec t)"

definition trilinear_spec :: "vec3 \<Rightarrow> real" where
  "trilinear_spec p =
    (case p of (x, y, z) \<Rightarrow>
      (\<Sum>dx\<leftarrow>[0, 1]. \<Sum>dy\<leftarrow>[0, 1]. \<Sum>dz\<leftarrow>[0, 1].
         axis_weight dx (fract x) * axis_weight dy (fract y) * axis_weight dz (fract z)
         * h31 (of_int \<lfloor>x\<rfloor> + real dx, of_int \<lfloor>y\<rfloor> + real dy, of_int \<lfloor>z\<rfloor> + real dz)))"

text \<open>The specification's description of \<open>fbm\<close>: octave \<open>i\<close> contributes
  \<open>0.5 ^ (i + 1) * valueNoise3 (p * 2.02 ^ i)\<close>, for the octave indices below a count.\<close>

definition fbm_sum :: "vec3 \<Rightarrow> nat \<Rightarrow> real" where
  "fbm_sum p n = (\<Sum>i<n. 0.5 ^ (i + 1) * vnoise (scale3 p (2.02 ^ i)))"

definition clamp_int :: "int \<Rightarrow> int \<Rightarrow> int \<Rightarrow> int" where
  "clamp_int k lo hi = min (max k lo) hi"

section \<open>DisplacementModel: the vertex shader \<^verbatim>\<open>main\<close> (fireball-vert.glsl, lines 72-144)\<close>

text \<open>More GLSL built-ins.  \<^verbatim>\<open>normalize(v) = v / length(v)\<close>; GLSL leaves it
  undefined at the zero vector, and the perspective division undefined at
  \<open>w = 0\<close>.  \<open>normalize2\<close>, \<open>normalize3\<close> and \<open>ndc_of\<close> give the value where there
  is one (and HOL's \<open>x / 0 = 0\<close> elsewhere); \<open>normalize2_nan\<close>, \<open>normalize3_nan\<close>
  and \<open>ndc_nan\<close> further down say where there is none.
  \<^verbatim>\<open>pow(x, y)\<close> is only applied to a base clamped into \<open>[0, 1]\<close>, where it is
  \<open>x powr y\<close>.  A \<^verbatim>\<open>mat4\<close> is the tuple of its four columns.\<close>

type_synonym mat4 = "vec4 \<times> vec4 \<times> vec4 \<times> vec4"

fun vx :: "vec3 \<Rightarrow> real" where "vx (x, y, z) = x"
fun vy :: "vec3 \<Rightarrow> real" where "vy (x, y, z) = y"
fun vz :: "vec3 \<Rightarrow> real" where "vz (x, y, z) = z"

fun sub2 :: "vec2 \<Rightarrow> vec2 \<Rightarrow> vec2" where
  "sub2 (a, b) (x, y) = (a - x, b - y)"

fun adds2 :: "vec2 \<Rightarrow> real \<Rightarrow> vec2" where
  "adds2 (x, y) s = (x + s, y + s)"

fun length2 :: "vec2 \<Rightarrow> real" where
  "length2 (x, y) = sqrt (x * x + y * y)"

fun normalize2 :: "vec2 \<Rightarrow> vec2" where
  "normalize2 (x, y) = (x / length2 (x, y), y / length2 (x, y))"

definition length3 :: "vec3 \<Rightarrow> real" where
  "length3 v = sqrt (dot3 v v)"

fun normalize3 :: "vec3 \<Rightarrow> vec3" where
  "normalize3 (x, y, z) =
     (x / length3 (x, y, z), y / length3 (x, y, z), z / length3 (x, y, z))"

fun cross :: "vec3 \<Rightarrow> vec3 \<Rightarrow> vec3" where
  "cross (a, b, c) (x, y, z) = (b * z - c * y, c * x - a * z, a * y - b * x)"

fun mix3 :: "vec3 \<Rightarrow> vec3 \<Rightarrow> real \<Rightarrow> vec3" where
  "mix3 (a, b, c) (x, y, z) t = (mix a x t, mix b y t, mix c z t)"

fun xyz :: "vec4 \<Rightarrow> vec3" where
  "xyz (x, y, z, w) = (x, y, z)"

fun vec4_of :: "vec3 \<Rightarrow> real \<Rightarrow> vec4" where
  "vec4_of (x, y, z) w = (x, y, z, w)"

fun add4 :: "vec4 \<Rightarrow> vec4 \<Rightarrow> vec4" where
  "add4 (a, b, c, d) (x, y, z, w) = (a + x, b + y, c + z, d + w)"

fun scale4 :: "vec4 \<Rightarrow> real \<Rightarrow> vec4" where
  "scale4 (x, y, z, w) s = (x * s, y * s, z * s, w * s)"

fun mat_vec :: "mat4 \<Rightarrow> vec4 \<Rightarrow> vec4" where
  "mat_vec (c0, c1, c2, c3) (x, y, z, w) =
     add4 (add4 (scale4 c0 x) (scale4 c1 y)) (add4 (scale4 c2 z) (scale4 c3 w))"

fun mat_mat :: "mat4 \<Rightarrow> mat4 \<Rightarrow> mat4" where
  "mat_mat A (b0, b1, b2, b3) = (mat_vec A b0, mat_vec A b1, mat_vec A b2, mat_vec A b3)"

fun ndc_of :: "vec4 \<Rightarrow> vec2" where
  "ndc_of (x, y, z, w) = (x / w, y / w)"

text \<open>The uniforms the vertex shader declares, and the values it writes.\<close>

record uniforms =
  u_Model :: mat4
  u_ViewProj :: mat4
  u_Time :: real
  u_Octaves :: int
  u_CoreLowAmp :: real
  u_CoreHiAmp :: real
  u_CoreScale :: real
  u_FlameNoiseScale :: real
  u_FlameHiAmp :: real
  u_FlameLift :: real
  u_UpDir :: vec3
  u_MouseNDC :: vec2
  u_MouseStrength :: real
  u_MouseFalloff :: real
  u_MouseOn :: int
  u_ShellOffset :: real
  u_GlowOffset :: real
  u_SceneScale :: real
  u_Pass :: int

record vs_out =
  v_Pos :: vec3
  v_Core :: real
  v_Height :: real
  v_Radial :: real
  v_Rim :: real
  v_Grain :: real
  v_UpDot :: real
  gl_Position :: vec4

text \<open>
  \<^verbatim>\<open>float lowStatic = 0.70 * sin(0.85 * p.y) + 0.50 * cos(0.60 * p.z) + 0.40 * sin(0.60 * p.x);
  float coreHi   = vnoise(p * 6.0);
  float coreDisp = u_CoreLowAmp * lowStatic + u_CoreHiAmp * (coreHi - 0.5);\<close>
\<close>

definition lowStatic :: "vec3 \<Rightarrow> real" where
  "lowStatic p = 0.70 * sin (0.85 * vy p) + 0.50 * cos (0.60 * vz p) + 0.40 * sin (0.60 * vx p)"

definition coreDisp :: "uniforms \<Rightarrow> vec3 \<Rightarrow> real" where
  "coreDisp u p =
     (let coreHi = vnoise (scale3 p 6.0)
      in u_CoreLowAmp u * lowStatic p + u_CoreHiAmp u * (coreHi - 0.5))"

text \<open>The body of \<^verbatim>\<open>main\<close>, statement by statement; each \<^verbatim>\<open>if (u_Pass == k) x = e;\<close>
  is a conditional that keeps the earlier value otherwise.\<close>

definition main :: "uniforms \<Rightarrow> vec4 \<Rightarrow> vs_out" where
  "main u vs_Pos =
    (let p = xyz vs_Pos;
         n = normalize3 (adds3 p 0.000001);
         Up = normalize3 (u_UpDir u);
         cDisp = coreDisp u p;
         baseDisp0 = cDisp;
         baseDisp1 = (if u_Pass u = 1 then cDisp + u_ShellOffset u else baseDisp0);
         baseDisp = (if u_Pass u = 2 then cDisp + u_GlowOffset u else baseDisp1);
         basePos = add3 p (scale3 n baseDisp);
         baseScale = (if u_Pass u = 0 then u_SceneScale u * u_CoreScale u else u_SceneScale u);
         baseClip = mat_vec (mat_mat (u_ViewProj u) (u_Model u)) (vec4_of (scale3 basePos baseScale) 1.0);
         ndc = ndc_of baseClip;
         fall = max (u_MouseFalloff u) 0.0001;
         d = length2 (sub2 ndc (u_MouseNDC u));
         infl = exp (- (d / fall) * (d / fall));
         mouseGate = (if u_MouseOn u = 1 then 1.0 else 0.0);
         a = (if \<bar>vy n\<bar> < 0.99 then (0.0, 1.0, 0.0) else (1.0, 0.0, 0.0));
         t1 = normalize3 (cross n a);
         t2 = normalize3 (cross n t1);
         toMouse2D = normalize2 (adds2 (sub2 (u_MouseNDC u) ndc) 0.000001);
         toMouseWorld = normalize3 (add3 (scale3 t1 (fst toMouse2D)) (scale3 t2 (snd toMouse2D)));
         attract = mouseGate * infl * clamp (u_MouseStrength u) 0.0 2.0;
         UpDeform = normalize3 (mix3 Up toMouseWorld (if u_Pass u = 0 then 0.0 else attract));
         upDot = clamp (dot3 n UpDeform) 0.0 1.0;
         topWeight = upDot powr 1.6;
         fBM = fbm (add3 (scale3 p (u_FlameNoiseScale u)) (scale3 UpDeform (0.7 * u_Time u)))
                 (u_Octaves u);
         flameDisp = cDisp + topWeight * (u_FlameHiAmp u * (fBM - 0.5) + u_FlameLift u);
         tangentialPull = 0.12 * attract;
         extra = (if u_Pass u = 0 then (0.0, 0.0, 0.0) else scale3 toMouseWorld tangentialPull);
         disp0 = cDisp;
         disp1 = (if u_Pass u = 1 then flameDisp + u_ShellOffset u else disp0);
         disp = (if u_Pass u = 2 then flameDisp + u_GlowOffset u else disp1);
         displaced = add3 (add3 p (scale3 n disp)) extra;
         r = length3 displaced;
         scale = (if u_Pass u = 0 then u_SceneScale u * u_CoreScale u else u_SceneScale u);
         modelPos = mat_vec (u_Model u) (vec4_of (scale3 displaced scale) 1.0)
     in \<lparr> v_Pos = xyz (mat_vec (u_Model u) (vec4_of displaced 1.0)),
          v_Core = fBM,
          v_Height = disp,
          v_Radial = 1.0 - smoothstep 0.78 1.0 r,
          v_Rim = smoothstep 0.94 1.08 r,
          v_Grain = vnoise (scale3 displaced 32.0),
          v_UpDot = upDot,
          gl_Position = mat_vec (u_ViewProj u) modelPos \<rparr>)"

text \<open>The specification's formula for the core-pass displacement.\<close>

definition core_disp_spec :: "real \<Rightarrow> real \<Rightarrow> vec3 \<Rightarrow> real" where
  "core_disp_spec coreLowAmp coreHiAmp p =
     coreLowAmp * (0.70 * sin (0.85 * vy p) + 0.50 * cos (0.60 * vz p) + 0.40 * sin (0.60 * vx p))
     + coreHiAmp * (vnoise (scale3 p 6) - 0.5)"

text \<open>A concrete uniform set for evaluating the shader: the host's default control
  values (main.ts, \<^verbatim>\<open>defaults\<close>), identity matrices, a given pass and time.\<close>

definition mat4_identity :: mat4 where
  "mat4_identity = ((1, 0, 0, 0), (0, 1, 0, 0), (0, 0, 1, 0), (0, 0, 0, 1))"

definition default_uniforms :: "int \<Rightarrow> real \<Rightarrow> uniforms" where
  "default_uniforms pass t =
    \<lparr> u_Model = mat4_identity, u_ViewProj = mat4_identity, u_Time = t, u_Octaves = 5,
      u_CoreLowAmp = 0.26, u_CoreHiAmp = 0.01, u_CoreScale = 0.72,
      u_FlameNoiseScale = 2.2, u_FlameHiAmp = 0.24, u_FlameLift = 0.26,
      u_UpDir = (0, 1, 0), u_MouseNDC = (0, 0), u_MouseStrength = 0.9,
      u_MouseFalloff = 0.35, u_MouseOn = 1, u_ShellOffset = 0.2,
      u_GlowOffset = 0.2 * 1.6, u_SceneScale = 1.0, u_Pass = pass \<rparr>"

subsection \<open>The vertex shader with undefined results made explicit\<close>

text \<open>
  \<open>main\<close> above gives the values of the shader where every operation has one.
  Two operations of the body have none for some arguments: \<^verbatim>\<open>normalize\<close> of the
  zero vector (\<open>0 / 0\<close>, a NaN under IEEE arithmetic; GLSL leaves the result
  undefined) and the perspective division by \<open>w = 0\<close>.  \<open>main_nan\<close> is the same
  body, statement by statement, with such a result written \<open>None\<close>.  A value
  computed from a \<open>None\<close> operand is \<open>None\<close>, also when the operand is multiplied by
  0, as \<^verbatim>\<open>mix(Up, toMouseWorld, 0.0) = Up * 1.0 + toMouseWorld * 0.0\<close> is, and
  also when the operand is compared; a conditional \<^verbatim>\<open>(u_Pass == 0) ? a : b\<close> on
  the uniform reads only the operand it selects.  \<^verbatim>\<open>fbm\<close> reads its point only inside the loop body, so on an
  undefined point it still returns 0.0 when the loop breaks at once.
\<close>

definition normalize2_nan :: "vec2 \<Rightarrow> vec2 option" where
  "normalize2_nan v = (if length2 v = 0 then None else Some (normalize2 v))"

definition normalize3_nan :: "vec3 \<Rightarrow> vec3 option" where
  "normalize3_nan v = (if length3 v = 0 then None else Some (normalize3 v))"

fun ndc_nan :: "vec4 \<Rightarrow> vec2 option" where
  "ndc_nan (x, y, z, w) = (if w = 0 then None else Some (ndc_of (x, y, z, w)))"

definition fbm_nan :: "vec3 option \<Rightarrow> int \<Rightarrow> real option" where
  "fbm_nan q oct =
     (case q of Some p \<Rightarrow> Some (fbm p oct) | None \<Rightarrow> if 0 \<ge> oct then Some 0.0 else None)"

record vs_out_nan =
  v_Pos_nan :: "vec3 option"
  v_Core_nan :: "real option"
  v_Height_nan :: "real option"
  v_Radial_nan :: "real option"
  v_Rim_nan :: "real option"
  v_Grain_nan :: "real option"
  v_UpDot_nan :: "real option"
  gl_Position_nan :: "vec4 option"

definition main_nan :: "uniforms \<Rightarrow> vec4 \<Rightarrow> vs_out_nan" where
  "main_nan u vs_Pos =
    (let p = xyz vs_Pos;
         n = normalize3_nan (adds3 p 0.000001);
         Up = normalize3_nan (u_UpDir u);
         cDisp = coreDisp u p;
         baseDisp0 = cDisp;
         baseDisp1 = (if u_Pass u = 1 then cDisp + u_ShellOffset u else baseDisp0);
         baseDisp = (if u_Pass u = 2 then cDisp + u_GlowOffset u else baseDisp1);
         basePos = do { n' \<leftarrow> n; Some (add3 p (scale3 n' baseDisp)) };
         baseScale = (if u_Pass u = 0 then u_SceneScale u * u_CoreScale u else u_SceneScale u);
         baseClip = do { b \<leftarrow> basePos;
                         Some (mat_vec (mat_mat (u_ViewProj u) (u_Model u))
                                 (vec4_of (scale3 b baseScale) 1.0)) };
         ndc = do { c \<leftarrow> baseClip; ndc_nan c };
         fall = max (u_MouseFalloff u) 0.0001;
         d = do { q \<leftarrow> ndc; Some (length2 (sub2 q (u_MouseNDC u))) };
         infl = do { d' \<leftarrow> d; Some (exp (- (d' / fall) * (d' / fall))) };
         mouseGate = (if u_MouseOn u = 1 then 1.0 else 0.0);
         a = do { n' \<leftarrow> n;
                  Some (if \<bar>vy n'\<bar> < 0.99 then (0.0, 1.0, 0.0) else (1.0, 0.0, 0.0)) };
         t1 = do { n' \<leftarrow> n; a' \<leftarrow> a; normalize3_nan (cross n' a') };
         t2 = do { n' \<leftarrow> n; t \<leftarrow> t1; normalize3_nan (cross n' t) };
         toMouse2D = do { q \<leftarrow> ndc;
                          normalize2_nan (adds2 (sub2 (u_MouseNDC u) q) 0.000001) };
         toMouseWorld = do { m \<leftarrow> toMouse2D; x \<leftarrow> t1; y \<leftarrow> t2;
                             normalize3_nan (add3 (scale3 x (fst m)) (scale3 y (snd m))) };
         attract = do { i \<leftarrow> infl; Some (mouseGate * i * clamp (u_MouseStrength u) 0.0 2.0) };
         weight = (if u_Pass u = 0 then Some 0.0 else attract);
         UpDeform = do { U \<leftarrow> Up; m \<leftarrow> toMouseWorld; w \<leftarrow> weight;
                         normalize3_nan (mix3 U m w) };
         upDot = do { n' \<leftarrow> n; U \<leftarrow> UpDeform; Some (clamp (dot3 n' U) 0.0 1.0) };
         topWeight = do { x \<leftarrow> upDot; Some (x powr 1.6) };
         fBM = fbm_nan (do { U \<leftarrow> UpDeform;
                             Some (add3 (scale3 p (u_FlameNoiseScale u))
                                        (scale3 U (0.7 * u_Time u))) })
                 (u_Octaves u);
         flameDisp = do { tw \<leftarrow> topWeight; f \<leftarrow> fBM;
                          Some (cDisp + tw * (u_FlameHiAmp u * (f - 0.5) + u_FlameLift u)) };
         tangentialPull = do { a' \<leftarrow> attract; Some (0.12 * a') };
         extra = (if u_Pass u = 0 then Some (0.0, 0.0, 0.0)
                  else do { m \<leftarrow> toMouseWorld; tp \<leftarrow> tangentialPull; Some (scale3 m tp) });
         disp0 = Some cDisp;
         disp1 = (if u_Pass u = 1 then do { f \<leftarrow> flameDisp; Some (f + u_ShellOffset u) }
                  else disp0);
         disp = (if u_Pass u = 2 then do { f \<leftarrow> flameDisp; Some (f + u_GlowOffset u) }
                 else disp1);
         displaced = do { n' \<leftarrow> n; d' \<leftarrow> disp; e \<leftarrow> extra;
                          Some (add3 (add3 p (scale3 n' d')) e) };
         r = do { x \<leftarrow> displaced; Some (length3 x) };
         scale = (if u_Pass u = 0 then u_SceneScale u * u_CoreScale u else u_SceneScale u)
     in \<lparr> v_Pos_nan = do { x \<leftarrow> displaced; Some (xyz (mat_vec (u_Model u) (vec4_of x 1.0))) },
          v_Core_nan = fBM,
          v_Height_nan = disp,
          v_Radial_nan = do { r' \<leftarrow> r; Some (1.0 - smoothstep 0.78 1.0 r') },
          v_Rim_nan = do { r' \<leftarrow> r; Some (smoothstep 0.94 1.08 r') },
          v_Grain_nan = do { x \<leftarrow> displaced; Some (vnoise (scale3 x 32.0)) },
          v_UpDot_nan = upDot,
          gl_Position_nan =
            do { x \<leftarrow> displaced;
                 Some (mat_vec (u_ViewProj u)
                         (mat_vec (u_Model u) (vec4_of (scale3 x scale) 1.0))) } \<rparr>)"

text \<open>The clip-space position of the undisplaced core vertex, \<^verbatim>\<open>baseClip\<close> of the
  body for \<open>u_Pass = 0\<close>, and the fourth component of a \<^verbatim>\<open>vec4\<close>.\<close>

definition core_base_clip :: "uniforms \<Rightarrow> vec4 \<Rightarrow> vec4" where
  "core_base_clip u vs_Pos =
    (let p = xyz vs_Pos;
         n = normalize3 (adds3 p 0.000001);
         basePos = add3 p (scale3 n (coreDisp u p));
         baseScale = u_SceneScale u * u_CoreScale u
     in mat_vec (mat_mat (u_ViewProj u) (u_Model u)) (vec4_of (scale3 basePos baseScale) 1.0))"

fun vw :: "vec4 \<Rightarrow> real" where
  "vw (x, y, z, w) = w"



section \<open>OrbitCamera: the \<^verbatim>\<open>orbit\<close> object and its input handlers (main.ts 66-79, 126-143)\<close>

text \<open>JavaScript numbers are read as reals.  \<^verbatim>\<open>Math.sign\<close> is \<open>sgn\<close>.\<close>

record orbit =
  dragging :: bool
  lastX :: real
  lastY :: real
  yaw :: real
  pitch :: real
  radius :: real
  minPitch :: real
  maxPitch :: real
  minRadius :: real
  maxRadius :: real
  rotateSpeed :: real
  zoomSpeed :: real

definition orbit_init :: orbit where
  "orbit_init =
    \<lparr> dragging = False, lastX = 0, lastY = 0, yaw = 0, pitch = 0.2, radius = 8,
      minPitch = - 1.4, maxPitch = 1.4, minRadius = 2.5, maxRadius = 50,
      rotateSpeed = 0.008, zoomSpeed = 0.25 \<rparr>"

text \<open>The input events of the orbit handlers, with the event fields they read:
  \<^verbatim>\<open>mousedown\<close> and \<^verbatim>\<open>mousemove\<close> carry \<^verbatim>\<open>clientX\<close>, \<^verbatim>\<open>clientY\<close>; \<^verbatim>\<open>wheel\<close>
  carries \<^verbatim>\<open>deltaY\<close>.\<close>

datatype orbit_event = MouseDown real real | MouseUp | MouseMove real real | Wheel real

definition on_mousedown :: "orbit \<Rightarrow> real \<Rightarrow> real \<Rightarrow> orbit" where
  "on_mousedown ob clientX clientY = ob\<lparr>dragging := True, lastX := clientX, lastY := clientY\<rparr>"

definition on_mouseup :: "orbit \<Rightarrow> orbit" where
  "on_mouseup ob = ob\<lparr>dragging := False\<rparr>"

text \<open>
  \<^verbatim>\<open>if (!orbit.dragging) return;
  const dx = e.clientX - orbit.lastX; const dy = e.clientY - orbit.lastY;
  orbit.lastX = e.clientX; orbit.lastY = e.clientY;
  orbit.yaw   += dx * orbit.rotateSpeed;
  orbit.pitch += dy * orbit.rotateSpeed;
  orbit.pitch  = Math.max(orbit.minPitch, Math.min(orbit.maxPitch, orbit.pitch));\<close>
\<close>

definition on_mousemove :: "orbit \<Rightarrow> real \<Rightarrow> real \<Rightarrow> orbit" where
  "on_mousemove ob clientX clientY =
    (if \<not> dragging ob then ob
     else
       (let dx = clientX - lastX ob;
            dy = clientY - lastY ob;
            ob1 = ob\<lparr>lastX := clientX, lastY := clientY\<rparr>;
            ob2 = ob1\<lparr>yaw := yaw ob1 + dx * rotateSpeed ob1\<rparr>;
            ob3 = ob2\<lparr>pitch := pitch ob2 + dy * rotateSpeed ob2\<rparr>
        in ob3\<lparr>pitch := max (minPitch ob3) (min (maxPitch ob3) (pitch ob3))\<rparr>))"

text \<open>
  \<^verbatim>\<open>orbit.radius *= (1.0 + Math.sign(e.deltaY) * orbit.zoomSpeed * 0.1);
  orbit.radius  = Math.max(orbit.minRadius, Math.min(orbit.maxRadius, orbit.radius));\<close>
\<close>

definition on_wheel :: "orbit \<Rightarrow> real \<Rightarrow> orbit" where
  "on_wheel ob deltaY =
    (let ob1 = ob\<lparr>radius := radius ob * (1.0 + sgn deltaY * zoomSpeed ob * 0.1)\<rparr>
     in ob1\<lparr>radius := max (minRadius ob1) (min (maxRadius ob1) (radius ob1))\<rparr>)"

fun orbit_step :: "orbit \<Rightarrow> orbit_event \<Rightarrow> orbit" where
  "orbit_step ob (MouseDown x y) = on_mousedown ob x y"
| "orbit_step ob MouseUp = on_mouseup ob"
| "orbit_step ob (MouseMove x y) = on_mousemove ob x y"
| "orbit_step ob (Wheel d) = on_wheel ob d"

definition orbit_run :: "orbit \<Rightarrow> orbit_event list \<Rightarrow> orbit" where
  "orbit_run ob evs = foldl orbit_step ob evs"

text \<open>The bounds of the camera state, on the bounds the state itself carries.\<close>

definition orbit_in_bounds :: "orbit \<Rightarrow> bool" where
  "orbit_in_bounds ob \<longleftrightarrow>
     minPitch ob \<le> pitch ob \<and> pitch ob \<le> maxPitch ob
     \<and> minRadius ob \<le> radius ob \<and> radius ob \<le> maxRadius ob"

definition orbit_config :: "orbit \<Rightarrow> bool" where
  "orbit_config ob \<longleftrightarrow>
     minPitch ob = - 1.4 \<and> maxPitch ob = 1.4 \<and> minRadius ob = 2.5 \<and> maxRadius ob = 50"

section \<open>AudioAnalyzer: capture state, teardown and per-frame analysis (part_000, 173-189, 322-441, 486-559)\<close>

text \<open>
  The module-level audio variables.  A media stream is the list of its track
  identifiers; an audio context carries its sample rate; the analyser node carries
  \<^verbatim>\<open>fftSize\<close> and \<^verbatim>\<open>smoothingTimeConstant\<close> (\<^verbatim>\<open>frequencyBinCount\<close> is half of
  \<^verbatim>\<open>fftSize\<close>); \<^verbatim>\<open>fft\<close> is a \<^verbatim>\<open>Uint8Array\<close>.  \<open>fileAudioEl\<close> holds, when the element
  exists, whether it is paused.  The two effects on the outside world, stopping a
  track and closing a context, are logged in \<open>stoppedTracks\<close> and \<open>closedContexts\<close>.
\<close>

type_synonym media_stream = "nat list"

record audio_ctx =
  sampleRate :: real

record analyser_node =
  fftSize :: nat
  smoothingTimeConstant :: real

record audio_state =
  tabStream :: "media_stream option"
  audioCtx :: "audio_ctx option"
  analyser :: "analyser_node option"
  fft :: "8 word list option"
  fileAudioEl :: "bool option"
  aBass :: real
  aMid :: real
  aTre :: real
  aBeat :: real
  ema :: real
  lastBeatT :: real
  stoppedTracks :: "nat list"
  closedContexts :: "audio_ctx list"

definition audio_init :: audio_state where
  "audio_init =
    \<lparr> tabStream = None, audioCtx = None, analyser = None, fft = None, fileAudioEl = None,
      aBass = 0, aMid = 0, aTre = 0, aBeat = 0, ema = 0, lastBeatT = 0,
      stoppedTracks = [], closedContexts = [] \<rparr>"

definition minBeatInterval :: real where
  "minBeatInterval = 0.26"

text \<open>
  \<^verbatim>\<open>function stopTabAudioCapture() {
    if (tabStream) { tabStream.getTracks().forEach((t) => t.stop()); tabStream = null; }
    if (audioCtx) { audioCtx.close().catch(() => {}); audioCtx = null; }
    analyser = null; fft = null;
    aBass = aMid = aTre = aBeat = 0; ema = 0; lastBeatT = 0;
    if (fileAudioEl) { try { fileAudioEl.pause(); } catch {} } }\<close>
\<close>

definition stopTabAudioCapture :: "audio_state \<Rightarrow> audio_state" where
  "stopTabAudioCapture s =
    (let s1 = (case tabStream s of
                 Some st \<Rightarrow> s\<lparr>stoppedTracks := stoppedTracks s @ st, tabStream := None\<rparr>
               | None \<Rightarrow> s);
         s2 = (case audioCtx s1 of
                 Some c \<Rightarrow> s1\<lparr>closedContexts := closedContexts s1 @ [c], audioCtx := None\<rparr>
               | None \<Rightarrow> s1);
         s3 = s2\<lparr>analyser := None, fft := None,
                 aBass := 0, aMid := 0, aTre := 0, aBeat := 0, ema := 0, lastBeatT := 0\<rparr>
     in (case fileAudioEl s3 of Some paused \<Rightarrow> s3\<lparr>fileAudioEl := Some True\<rparr> | None \<Rightarrow> s3))"

text \<open>
  \<^verbatim>\<open>wireAnalyserFromStream(stream)\<close>: stores the stream, creates a context (whose sample
  rate the browser chooses, an argument here) and an analyser with \<^verbatim>\<open>fftSize = 2048\<close>
  and the smoothing control, allocates \<^verbatim>\<open>fft\<close>, and registers on every track of the
  stream the \<^verbatim>\<open>ended\<close> listener \<^verbatim>\<open>(_ev) => stopTabAudioCapture()\<close>, which is
  \<open>on_track_ended\<close>.
\<close>

definition wireAnalyserFromStream :: "media_stream \<Rightarrow> real \<Rightarrow> real \<Rightarrow> audio_state \<Rightarrow> audio_state" where
  "wireAnalyserFromStream stream rate smoothing s =
     s\<lparr>tabStream := Some stream,
       audioCtx := Some \<lparr>sampleRate = rate\<rparr>,
       analyser := Some \<lparr>fftSize = 2048, smoothingTimeConstant = smoothing\<rparr>,
       fft := Some (replicate (2048 div 2) 0)\<rparr>"

definition on_track_ended :: "audio_state \<Rightarrow> audio_state" where
  "on_track_ended s = stopTabAudioCapture s"

text \<open>What the analyser node and the audio clock deliver in one frame: the bytes
  \<^verbatim>\<open>getByteFrequencyData\<close> and \<^verbatim>\<open>getByteTimeDomainData\<close> write, and
  \<^verbatim>\<open>audioCtx.currentTime\<close>.  An array shorter than the data is filled up to its
  length, a longer one keeps zeros.\<close>

record audio_in =
  freqData :: "8 word list"
  timeData :: "8 word list"
  currentTime :: real

definition fill_bytes :: "nat \<Rightarrow> 8 word list \<Rightarrow> 8 word list" where
  "fill_bytes n bs = take n (bs @ replicate n 0)"

text \<open>
  \<^verbatim>\<open>const band = (f0, f1) => {
    const i0 = Math.max(0, Math.floor(f0 / binHz));
    const i1 = Math.min(fft.length - 1, Math.ceil(f1 / binHz));
    let sum = 0;
    for (let i = i0; i <= i1; i++) sum += fft![i];
    return sum / Math.max(1, i1 - i0 + 1) / 255; };\<close>
  Every index the loop reads lies in \<open>[0, length fft - 1]\<close>.
\<close>

definition band :: "8 word list \<Rightarrow> real \<Rightarrow> real \<Rightarrow> real \<Rightarrow> real" where
  "band fftv binHz f0 f1 =
    (let i0 = max 0 \<lfloor>f0 / binHz\<rfloor>;
         i1 = min (int (length fftv) - 1) \<lceil>f1 / binHz\<rceil>;
         sum = (\<Sum>i\<leftarrow>[i0..i1]. real (unat (fftv ! nat i)))
     in sum / of_int (max 1 (i1 - i0 + 1)) / 255)"

text \<open>
  The beat detector, lines 526-539, on the beat energy \<open>nowE\<close>, the sensitivity
  control and the audio clock \<open>t\<close>:
  \<^verbatim>\<open>if (ema === 0) ema = nowE;
  const alpha = 0.15;
  ema = (1 - alpha) * ema + alpha * nowE;
  const threshold = ema * Math.max(0.5, controls.sensitivity);
  const canBeat = t - lastBeatT > minBeatInterval;
  if (canBeat && nowE > threshold) { lastBeatT = t; aBeat = 1.0; }
  else { aBeat = Math.max(0, aBeat - 3.5 * (1 / 60)); }\<close>
\<close>

definition ema_next :: "real \<Rightarrow> real \<Rightarrow> real" where
  "ema_next e nowE =
    (let e0 = (if e = 0 then nowE else e);
         alpha = 0.15
     in (1 - alpha) * e0 + alpha * nowE)"

definition beat_fires :: "audio_state \<Rightarrow> real \<Rightarrow> real \<Rightarrow> real \<Rightarrow> bool" where
  "beat_fires s nowE sensitivity t =
    (let threshold = ema_next (ema s) nowE * max 0.5 sensitivity;
         canBeat = t - lastBeatT s > minBeatInterval
     in canBeat \<and> nowE > threshold)"

definition beat_update :: "real \<Rightarrow> real \<Rightarrow> real \<Rightarrow> audio_state \<Rightarrow> audio_state" where
  "beat_update nowE sensitivity t s =
    (let s1 = s\<lparr>ema := ema_next (ema s) nowE\<rparr>
     in if beat_fires s nowE sensitivity t then s1\<lparr>lastBeatT := t, aBeat := 1.0\<rparr>
        else s1\<lparr>aBeat := max 0 (aBeat s1 - 3.5 * (1 / 60))\<rparr>)"

text \<open>\<^verbatim>\<open>const nowE = bass * 1.0 + mid * 0.25; // beat energy\<close>\<close>

definition beat_energy :: "real \<Rightarrow> real \<Rightarrow> real" where
  "beat_energy bass mid = bass * 1.0 + mid * 0.25"

text \<open>\<^verbatim>\<open>updateAudioLevels()\<close>, with the controls it reads (\<^verbatim>\<open>smoothing\<close>,
  \<^verbatim>\<open>sensitivity\<close>) as arguments.  It returns at once when there is no analyser or
  no context.  The debug log at the end has no effect on the audio state.\<close>

definition updateAudioLevels :: "real \<Rightarrow> real \<Rightarrow> audio_in \<Rightarrow> audio_state \<Rightarrow> audio_state" where
  "updateAudioLevels smoothing sensitivity inp s =
    (case (analyser s, audioCtx s) of
       (Some an, Some ctx) \<Rightarrow>
         (let fft1 = fill_bytes (fftSize an div 2) (freqData inp);
              an1 = an\<lparr>smoothingTimeConstant := smoothing\<rparr>;
              td = fill_bytes (fftSize an) (timeData inp);
              rmsSum = (\<Sum>b\<leftarrow>td. ((real (unat b) - 128) / 128) * ((real (unat b) - 128) / 128));
              rms = sqrt (rmsSum / real (length td));
              sr = sampleRate ctx;
              binHz = sr / (2 * real (length fft1));
              bass0 = band fft1 binHz 20 150;
              mid0 = band fft1 binHz 150 2000;
              tre0 = band fft1 binHz 2000 10000;
              tiny = ((bass0 + mid0 + tre0) / 3 < 0.02);
              bass = (if tiny \<and> rms > 0.01 then min 1 (rms * 2.2) else bass0);
              mid = (if tiny \<and> rms > 0.01 then min 1 (rms * 1.4) else mid0);
              tre = (if tiny \<and> rms > 0.01 then min 1 (rms * 0.9) else tre0);
              s1 = beat_update (beat_energy bass mid) sensitivity (currentTime inp)
                     (s\<lparr>analyser := Some an1, fft := Some fft1\<rparr>)
          in s1\<lparr>aBass := bass, aMid := mid, aTre := tre\<rparr>)
     | _ \<Rightarrow> s)"

text \<open>A run of the beat detector over a signal of samples (bass, mid, clock), with
  the number of beats fired; \<open>above s x\<close> says that the sample's energy exceeds the
  threshold in state \<open>s\<close>, and a stretch of signal is \<open>quiet\<close> when no sample of it
  does.\<close>

type_synonym sample = "real \<times> real \<times> real"

fun beat_step :: "real \<Rightarrow> audio_state \<Rightarrow> sample \<Rightarrow> audio_state" where
  "beat_step sens s (bass, mid, t) = beat_update (beat_energy bass mid) sens t s"

fun above :: "real \<Rightarrow> audio_state \<Rightarrow> sample \<Rightarrow> bool" where
  "above sens s (bass, mid, t) \<longleftrightarrow>
     beat_energy bass mid > ema_next (ema s) (beat_energy bass mid) * max 0.5 sens"

fun fired :: "real \<Rightarrow> audio_state \<Rightarrow> sample \<Rightarrow> bool" where
  "fired sens s (bass, mid, t) \<longleftrightarrow> beat_fires s (beat_energy bass mid) sens t"

fun beat_count :: "real \<Rightarrow> audio_state \<Rightarrow> sample list \<Rightarrow> nat" where
  "beat_count sens s [] = 0"
| "beat_count sens s (x # xs) =
     (if fired sens s x then 1 else 0) + beat_count sens (beat_step sens s x) xs"

fun quiet :: "real \<Rightarrow> audio_state \<Rightarrow> sample list \<Rightarrow> bool" where
  "quiet sens s [] \<longleftrightarrow> True"
| "quiet sens s (x # xs) \<longleftrightarrow> \<not> above sens s x \<and> quiet sens (beat_step sens s x) xs"

definition beat_run :: "real \<Rightarrow> audio_state \<Rightarrow> sample list \<Rightarrow> audio_state" where
  "beat_run sens s xs = foldl (beat_step sens) s xs"

text \<open>The specification's wording of the beat rule: a beat fires when the energy
  exceeds \<open>ema * max 0.5 sensitivity\<close> and at least 0.26 s have elapsed since the
  last beat; otherwise the level decays at 3.5 per second of elapsed time \<open>dt\<close>.\<close>

definition beat_fires_spec :: "real \<Rightarrow> real \<Rightarrow> real \<Rightarrow> real \<Rightarrow> real \<Rightarrow> bool" where
  "beat_fires_spec energy e sensitivity t lastBeat \<longleftrightarrow>
     energy > e * max 0.5 sensitivity \<and> t - lastBeat \<ge> 0.26"

definition beat_decay_spec :: "real \<Rightarrow> real \<Rightarrow> real" where
  "beat_decay_spec level dt = max 0 (level - 3.5 * dt)"

section \<open>ParameterModulator and MultiPassCompositor: the frame callback \<^verbatim>\<open>tick\<close> (part_000, 97-156, 803-935)\<close>

text \<open>The \<^verbatim>\<open>controls\<close> object: the fields of \<^verbatim>\<open>defaults\<close> and of \<^verbatim>\<open>audioDefaults\<close>.\<close>

datatype shape = Icosphere | Square

record controls =
  tesselations :: real
  shape :: shape
  coreLowAmp :: real
  coreHiAmp :: real
  coreScale :: real
  flameNoiseScale :: real
  flameHiAmp :: real
  flameLift :: real
  octaves :: real
  bandCount :: real
  grainAmp :: real
  wash :: real
  exposure :: real
  coreHot :: real
  shellOffset :: real
  glowOffsetMul :: real
  sceneScale :: real
  glowStrength :: real
  upTargetX :: real
  upTargetY :: real
  upTargetZ :: real
  upCatchupTau :: real
  mouseOn :: bool
  mouseStrength :: real
  mouseFalloff :: real
  fireball :: bool
  audioOn :: bool
  gain :: real
  smoothing :: real
  sensitivity :: real
  bassToFlameLift :: real
  bassToGlow :: real
  midToCoreLow :: real
  trebleToGrainHi :: real
  beatToExposure :: real

definition controls_init :: controls where
  "controls_init =
    \<lparr> tesselations = 5, shape = Icosphere,
      coreLowAmp = 0.26, coreHiAmp = 0.01, coreScale = 0.72,
      flameNoiseScale = 2.2, flameHiAmp = 0.24, flameLift = 0.26, octaves = 5,
      bandCount = 7, grainAmp = 0.08, wash = 0.18, exposure = 0.45, coreHot = 0.55,
      shellOffset = 0.2, glowOffsetMul = 1.6, sceneScale = 1.0,
      glowStrength = 0.9,
      upTargetX = 0.0, upTargetY = 1.0, upTargetZ = 0.0, upCatchupTau = 0.25,
      mouseOn = True, mouseStrength = 0.9, mouseFalloff = 0.35,
      fireball = False,
      audioOn = True, gain = 1.0, smoothing = 0.7, sensitivity = 1.35,
      bassToFlameLift = 0.35, bassToGlow = 0.65, midToCoreLow = 0.25,
      trebleToGrainHi = 0.3, beatToExposure = 0.4 \<rparr>"

text \<open>The uniform state of the linked program: a map from uniform names to the
  values last written.  \<open>locs\<close> is the set of names for which
  \<^verbatim>\<open>gl.getUniformLocation\<close> returned a location; every write in the source is
  guarded by \<^verbatim>\<open>if (uni.x)\<close> and is skipped for the other names.\<close>

datatype uval = UFloat real | UInt int | UVec2 vec2 | UVec3 vec3 | UVec4 vec4 | UMat4 mat4

type_synonym ustore = "string \<Rightarrow> uval option"

definition bind :: "string set \<Rightarrow> ustore \<Rightarrow> string \<times> uval \<Rightarrow> ustore" where
  "bind locs st kv = (\<lambda>n. if n = fst kv \<and> fst kv \<in> locs then Some (snd kv) else st n)"

definition bind_all :: "string set \<Rightarrow> (string \<times> uval) list \<Rightarrow> ustore \<Rightarrow> ustore" where
  "bind_all locs kvs st = foldl (bind locs) st kvs"

text \<open>\<^verbatim>\<open>x | 0\<close> on a JavaScript number: truncation towards zero, then wrap-around
  into the signed 32-bit range.\<close>

definition to_int32 :: "real \<Rightarrow> int" where
  "to_int32 x =
    (let n = (if x < 0 then \<lceil>x\<rceil> else \<lfloor>x\<rfloor>);
         m = n mod 2 ^ 32
     in if m \<ge> 2 ^ 31 then m - 2 ^ 32 else m)"

text \<open>gl-matrix (a library outside the repository): \<^verbatim>\<open>vec3.normalize\<close> scales by
  \<open>1 / sqrt len\<close> when the squared length \<open>len\<close> is positive and by 0 otherwise;
  \<^verbatim>\<open>vec3.lerp(out, a, b, t)\<close> is \<open>a + t * (b - a)\<close> on each component.\<close>

definition vec3_normalize :: "vec3 \<Rightarrow> vec3" where
  "vec3_normalize v =
    (let len = dot3 v v;
         len1 = (if len > 0 then 1 / sqrt len else len)
     in scale3 v len1)"

fun vec3_lerp :: "vec3 \<Rightarrow> vec3 \<Rightarrow> real \<Rightarrow> vec3" where
  "vec3_lerp (ax, ay, az) (bx, by, bz) t =
     (ax + t * (bx - ax), ay + t * (by - ay), az + t * (bz - az))"

text \<open>The state the frame callback reads and writes: the controls, the orbit, the
  lagged up vector, the mouse position, the Fireball mode flag, the audio state, the
  closure variables \<^verbatim>\<open>t0\<close> and \<^verbatim>\<open>last\<close>, and the GL state (uniform values of the
  program, blending, depth writes).\<close>

record app_state =
  ctl :: controls
  orb :: orbit
  upTarget :: vec3
  upSmooth :: vec3
  mouseNDC :: vec2
  fireballOn :: bool
  audio :: audio_state
  t0 :: real
  last :: real
  locs :: "string set"
  gl_uniforms :: ustore
  gl_blend :: bool
  gl_depthMask :: bool

text \<open>What one frame takes from outside: \<^verbatim>\<open>performance.now()\<close>, the analyser data,
  and the projection and view matrices of the camera at render time (the
  \<^verbatim>\<open>Camera\<close> class is not among the sources).\<close>

record frame_in =
  now :: real
  audioIn :: audio_in
  projectionMatrix :: mat4
  viewMatrix :: mat4

text \<open>One draw submission: the uniform values and the blend / depth-write state
  it is issued with.\<close>

record draw_call =
  snapshot :: ustore
  blend :: bool
  depthWrite :: bool

text \<open>The eye position handed to the camera (lines 811-822).\<close>

definition orbit_eye :: "orbit \<Rightarrow> vec3" where
  "orbit_eye ob =
    (let cp = cos (pitch ob); sp = sin (pitch ob);
         cy = cos (yaw ob); sy = sin (yaw ob)
     in (radius ob * cp * sy, radius ob * sp, radius ob * cp * cy))"

text \<open>The lagged up vector (lines 831-841): the pair of the new \<^verbatim>\<open>upTarget\<close> and
  \<^verbatim>\<open>upSmooth\<close>, with the blend weight
  \<^verbatim>\<open>k = 1.0 - Math.exp(-dt / Math.max(controls.upCatchupTau, 0.001))\<close>.\<close>

definition lag_k :: "controls \<Rightarrow> real \<Rightarrow> real" where
  "lag_k c dt = 1.0 - exp (- dt / max (upCatchupTau c) 0.001)"

definition lag_up :: "controls \<Rightarrow> real \<Rightarrow> vec3 \<Rightarrow> vec3 \<times> vec3" where
  "lag_up c dt up =
    (let tgt = vec3_normalize (upTargetX c, upTargetY c, upTargetZ c);
         k = lag_k c dt
     in (tgt, vec3_normalize (vec3_lerp up tgt k)))"

text \<open>The base writes of lines 846-876, in source order.\<close>

definition base_bindings :: "controls \<Rightarrow> real \<Rightarrow> vec3 \<Rightarrow> vec2 \<Rightarrow> (string \<times> uval) list" where
  "base_bindings c t up mouse =
    [(''u_Time'', UFloat t),
     (''u_Octaves'', UInt (to_int32 (octaves c))),
     (''u_CoreLowAmp'', UFloat (coreLowAmp c)),
     (''u_CoreHiAmp'', UFloat (coreHiAmp c)),
     (''u_CoreScale'', UFloat (coreScale c)),
     (''u_FlameNoiseScale'', UFloat (flameNoiseScale c)),
     (''u_FlameHiAmp'', UFloat (flameHiAmp c)),
     (''u_FlameLift'', UFloat (flameLift c)),
     (''u_UpDir'', UVec3 up),
     (''u_BandCount'', UInt (to_int32 (bandCount c))),
     (''u_GrainAmp'', UFloat (grainAmp c)),
     (''u_Wash'', UFloat (wash c)),
     (''u_Exposure'', UFloat (exposure c)),
     (''u_CoreHot'', UFloat (coreHot c)),
     (''u_ShellOffset'', UFloat (shellOffset c)),
     (''u_GlowOffset'', UFloat (shellOffset c * glowOffsetMul c)),
     (''u_SceneScale'', UFloat (sceneScale c)),
     (''u_GlowStrength'', UFloat (glowStrength c)),
     (''u_MouseNDC'', UVec2 mouse),
     (''u_MouseStrength'', UFloat (mouseStrength c)),
     (''u_MouseFalloff'', UFloat (mouseFalloff c)),
     (''u_MouseOn'', UInt (if mouseOn c then 1 else 0))]"

text \<open>Lines 880-884: the raw audio levels, as they are before this frame's analysis.\<close>

definition audio_bindings :: "audio_state \<Rightarrow> (string \<times> uval) list" where
  "audio_bindings a =
    [(''u_AudioBass'', UFloat (aBass a)),
     (''u_AudioMid'', UFloat (aMid a)),
     (''u_AudioTreble'', UFloat (aTre a)),
     (''u_AudioBeat'', UFloat (aBeat a))]"

text \<open>
  Lines 888-899, the CPU-side modulations, on the levels after the analysis:
  \<^verbatim>\<open>const flameLift = controls.flameLift + aBass * controls.bassToFlameLift;
  const glow = controls.glowStrength + aBass * controls.bassToGlow;
  const coreLow = controls.coreLowAmp + aMid * controls.midToCoreLow;
  const grain = controls.grainAmp + aTre * controls.trebleToGrainHi;
  const exposure = controls.exposure + aBeat * controls.beatToExposure;
  if (uni.flameLift) gl.uniform1f(uni.flameLift, Math.min(flameLift, 1.8));
  if (uni.glowStrength) gl.uniform1f(uni.glowStrength, Math.min(glow, 3.0));
  if (uni.coreLow) gl.uniform1f(uni.coreLow, Math.min(coreLow, 1.0));
  if (uni.grain) gl.uniform1f(uni.grain, Math.min(grain, 0.6));
  if (uni.exposure) gl.uniform1f(uni.exposure, Math.min(exposure, 2.0));\<close>
\<close>

definition modulation_bindings :: "controls \<Rightarrow> audio_state \<Rightarrow> (string \<times> uval) list" where
  "modulation_bindings c a =
    (let flameLift1 = flameLift c + aBass a * bassToFlameLift c;
         glow = glowStrength c + aBass a * bassToGlow c;
         coreLow = coreLowAmp c + aMid a * midToCoreLow c;
         grain = grainAmp c + aTre a * trebleToGrainHi c;
         exposure1 = exposure c + aBeat a * beatToExposure c
     in [(''u_FlameLift'', UFloat (min flameLift1 1.8)),
         (''u_GlowStrength'', UFloat (min glow 3.0)),
         (''u_CoreLowAmp'', UFloat (min coreLow 1.0)),
         (''u_GrainAmp'', UFloat (min grain 0.6)),
         (''u_Exposure'', UFloat (min exposure1 2.0))])"

text \<open>Lines 901-905: with audio off the four audio uniforms are written as 0.\<close>

definition audio_off_bindings :: "(string \<times> uval) list" where
  "audio_off_bindings =
    [(''u_AudioBass'', UFloat 0.0),
     (''u_AudioMid'', UFloat 0.0),
     (''u_AudioTreble'', UFloat 0.0),
     (''u_AudioBeat'', UFloat 0.0)]"

text \<open>\<^verbatim>\<open>OpenGLRenderer.render(camera, prog, drawables, white)\<close> (part_000, 34-82):
  the model matrix is the identity, the view-projection is projection times view;
  both are written under their uniform names, and so is the colour; no time is
  passed.  (The optional helper methods of the program object, a class outside the
  sources, are handed the same matrices.)\<close>

definition render_bindings :: "frame_in \<Rightarrow> (string \<times> uval) list" where
  "render_bindings inp =
    [(''u_Model'', UMat4 mat4_identity),
     (''u_ViewProj'', UMat4 (mat_mat (projectionMatrix inp) (viewMatrix inp))),
     (''u_Color'', UVec4 (1, 1, 1, 1))]"

text \<open>The frame callback.  It returns the new state and the three draw
  submissions of the frame, in order.  The mesh rebuild, the clear and the FPS
  counter do not touch what is modelled here.\<close>

definition tick :: "app_state \<Rightarrow> frame_in \<Rightarrow> app_state \<times> draw_call list" where
  "tick st inp =
    (let dt = max 0 ((now inp - last st) * 0.001);
         t = 0.001 * (now inp - t0 st);
         c = ctl st;
         ups = lag_up c dt (upSmooth st);
         u0 = bind_all (locs st) (base_bindings c t (snd ups) (mouseNDC st)) (gl_uniforms st);
         audio_on = (fireballOn st \<and> audioOn c);
         a1 = (if audio_on
               then updateAudioLevels (smoothing c) (sensitivity c) (audioIn inp) (audio st)
               else audio st);
         u1 = (if audio_on
               then bind_all (locs st) (modulation_bindings c a1)
                      (bind_all (locs st) (audio_bindings (audio st)) u0)
               else bind_all (locs st) audio_off_bindings u0);
         p0 = bind_all (locs st) (render_bindings inp) (bind (locs st) u1 (''u_Pass'', UInt 0));
         d0 = \<lparr> snapshot = p0, blend = False, depthWrite = True \<rparr>;
         p1 = bind_all (locs st) (render_bindings inp) (bind (locs st) p0 (''u_Pass'', UInt 1));
         d1 = \<lparr> snapshot = p1, blend = True, depthWrite = False \<rparr>;
         p2 = bind_all (locs st) (render_bindings inp) (bind (locs st) p1 (''u_Pass'', UInt 2));
         d2 = \<lparr> snapshot = p2, blend = True, depthWrite = False \<rparr>
     in (st\<lparr> last := now inp, upTarget := fst ups, upSmooth := snd ups, audio := a1,
              gl_uniforms := p2, gl_blend := False, gl_depthMask := True \<rparr>,
         [d0, d1, d2]))"

text \<open>The writes of one frame as lists: those before the passes, and those of the
  passes up to pass \<open>k\<close> (the pass index and then the renderer's writes, for each
  pass).  The uniform state of draw \<open>k\<close> is the old state overwritten by these in
  order (lemma \<open>tick_draws\<close> below).\<close>

definition frame_prefix :: "app_state \<Rightarrow> frame_in \<Rightarrow> (string \<times> uval) list" where
  "frame_prefix st inp =
    (let dt = max 0 ((now inp - last st) * 0.001);
         t = 0.001 * (now inp - t0 st);
         c = ctl st;
         ups = lag_up c dt (upSmooth st);
         audio_on = (fireballOn st \<and> audioOn c);
         a1 = (if audio_on
               then updateAudioLevels (smoothing c) (sensitivity c) (audioIn inp) (audio st)
               else audio st)
     in base_bindings c t (snd ups) (mouseNDC st)
        @ (if audio_on then audio_bindings (audio st) @ modulation_bindings c a1
           else audio_off_bindings))"

fun pass_bindings :: "frame_in \<Rightarrow> nat \<Rightarrow> (string \<times> uval) list" where
  "pass_bindings inp 0 = (''u_Pass'', UInt 0) # render_bindings inp"
| "pass_bindings inp (Suc k) =
     pass_bindings inp k @ (''u_Pass'', UInt (int (Suc k))) # render_bindings inp"

definition draw_uniforms :: "app_state \<Rightarrow> frame_in \<Rightarrow> nat \<Rightarrow> ustore" where
  "draw_uniforms st inp k =
     bind_all (locs st) (frame_prefix st inp @ pass_bindings inp k) (gl_uniforms st)"

text \<open>The Fireball toggle switched off (lines 780-788) stops the capture by hand;
  the \<^verbatim>\<open>ended\<close> event of a captured track reaches the same function through its
  listener.\<close>

definition fireball_off :: "app_state \<Rightarrow> app_state" where
  "fireball_off st = st\<lparr>fireballOn := False, audio := stopTabAudioCapture (audio st)\<rparr>"

definition track_ended :: "app_state \<Rightarrow> app_state" where
  "track_ended st = st\<lparr>audio := on_track_ended (audio st)\<rparr>"

text \<open>The state at start-up: nothing captured, the up vector at its target, an
  empty uniform state; \<open>all_locs\<close> is the set of uniform names the two shaders
  declare.\<close>

definition all_locs :: "string set" where
  "all_locs = set [''u_Model'', ''u_ViewProj'', ''u_Time'', ''u_Octaves'', ''u_CoreLowAmp'',
     ''u_CoreHiAmp'', ''u_CoreScale'', ''u_FlameNoiseScale'', ''u_FlameHiAmp'', ''u_FlameLift'',
     ''u_UpDir'', ''u_MouseNDC'', ''u_MouseStrength'', ''u_MouseFalloff'', ''u_MouseOn'',
     ''u_ShellOffset'', ''u_GlowOffset'', ''u_SceneScale'', ''u_Pass'', ''u_BandCount'',
     ''u_Exposure'', ''u_Wash'', ''u_GrainAmp'', ''u_CoreHot'', ''u_GlowStrength'']"

definition app_init :: app_state where
  "app_init =
    \<lparr> ctl = controls_init, orb = orbit_init, upTarget = (0, 1, 0), upSmooth = (0, 1, 0),
      mouseNDC = (0, 0), fireballOn = False, audio = audio_init, t0 = 0, last = 0,
      locs = all_locs, gl_uniforms = (\<lambda>n. None), gl_blend = False, gl_depthMask = True \<rparr>"

definition frame_at :: "real \<Rightarrow> frame_in" where
  "frame_at ms =
    \<lparr> now = ms,
      audioIn = \<lparr> freqData = [], timeData = [], currentTime = ms * 0.001 \<rparr>,
      projectionMatrix = mat4_identity, viewMatrix = mat4_identity \<rparr>"

text \<open>The specification's table of modulated parameters: the base value plus the
  audio level times its gain, capped at the ceiling.\<close>

definition modulated :: "real \<Rightarrow> real \<Rightarrow> real \<Rightarrow> real \<Rightarrow> real" where
  "modulated base level g cap = min (base + level * g) cap"

text \<open>A state in which the user has turned the up target to the x axis and
  switched audio reactivity off; the lagged up vector still points along y.\<close>

definition catching_up_state :: app_state where
  "catching_up_state =
     app_init\<lparr>ctl := controls_init\<lparr>upTargetX := 1, upTargetY := 0, audioOn := False\<rparr>\<rparr>"

section \<open>Properties of the noise field\<close>

lemma fract_range: "0 \<le> fract x \<and> fract x < 1"
  unfolding fract_def by linarith

lemma fract_of_int [simp]: "fract (of_int k) = 0"
  by (simp add: fract_def)

lemma h31_range: "0 \<le> h31 p \<and> h31 p < 1"
  by (cases p) (simp add: h31_def Let_def fract_range split: prod.splits)

lemma fade_range:
  assumes "0 \<le> f" "f \<le> 1"
  shows "0 \<le> fade f \<and> fade f \<le> 1"
proof -
  have "0 \<le> f * f" by simp
  moreover have "0 \<le> 3 - 2 * f" using assms by simp
  ultimately have lo: "0 \<le> fade f" unfolding fade_def by (rule mult_nonneg_nonneg)
  have "1 - fade f = (1 - f) * (1 - f) * (1 + 2 * f)"
    unfolding fade_def by (simp add: algebra_simps)
  moreover have "0 \<le> (1 - f) * (1 - f) * (1 + 2 * f)"
    using assms by (intro mult_nonneg_nonneg) simp_all
  ultimately show ?thesis using lo by simp
qed

lemma mix_range:
  assumes "0 \<le> a" "a \<le> 1" "0 \<le> b" "b \<le> 1" "0 \<le> t" "t \<le> 1"
  shows "0 \<le> mix a b t \<and> mix a b t \<le> 1"
proof -
  have lo: "0 \<le> a * (1 - t) + b * t"
    using assms by (intro add_nonneg_nonneg mult_nonneg_nonneg) simp_all
  have "a * (1 - t) \<le> 1 * (1 - t)" using assms by (intro mult_right_mono) simp_all
  moreover have "b * t \<le> 1 * t" using assms by (intro mult_right_mono) simp_all
  ultimately have "a * (1 - t) + b * t \<le> 1" by simp
  with lo show ?thesis by (simp add: mix_def)
qed

lemma vnoise_range: "0 \<le> vnoise p \<and> vnoise p \<le> 1"
proof -
  obtain x y z where p: "p = (x, y, z)" by (cases p)
  have h: "\<And>q. 0 \<le> h31 q" "\<And>q. h31 q \<le> 1"
    using h31_range by (simp_all add: less_imp_le)
  have u: "\<And>t. 0 \<le> fade (fract t)" "\<And>t. fade (fract t) \<le> 1"
    using fade_range fract_range by (simp_all add: less_imp_le)
  have m1: "\<And>a b t. 0 \<le> mix (h31 a) (h31 b) (fade (fract t)) \<and> mix (h31 a) (h31 b) (fade (fract t)) \<le> 1"
    by (intro mix_range h u)
  have m2: "\<And>a b c d s t. 0 \<le> mix (mix (h31 a) (h31 b) (fade (fract s))) (mix (h31 c) (h31 d) (fade (fract s))) (fade (fract t))
      \<and> mix (mix (h31 a) (h31 b) (fade (fract s))) (mix (h31 c) (h31 d) (fade (fract s))) (fade (fract t)) \<le> 1"
    using m1 u by (intro mix_range) simp_all
  show ?thesis
    unfolding p vnoise_def Let_def
    apply (simp only: floor3.simps fract3.simps add3.simps prod.case)
    apply (rule mix_range)
    using m2 u by simp_all
qed

lemma vnoise_lattice_point:
  "vnoise (of_int a, of_int b, of_int c) = h31 (of_int a, of_int b, of_int c)"
  by (simp add: vnoise_def Let_def fade_def mix_def)

lemma vnoise_eq_trilinear_spec: "vnoise p = trilinear_spec p"
proof -
  obtain x y z where p: "p = (x, y, z)" by (cases p)
  show ?thesis
    unfolding p vnoise_def trilinear_spec_def Let_def
    by (simp add: mix_def fade_def w_spec_def axis_weight_def power2_eq_square
        power3_eq_cube algebra_simps)
qed

declare fbm_loop.simps [simp del]

text \<open>The loop invariant: entered at index \<open>i\<close> with amplitude \<open>a\<close> and frequency
  \<open>f\<close>, the loop adds the octaves \<open>i\<close> up to the smaller of \<open>oct\<close> and 8.\<close>

lemma fbm_loop_sum:
  "0 \<le> i \<Longrightarrow> i \<le> 8 \<Longrightarrow>
   fbm_loop p oct i a f s =
     s + (\<Sum>j<nat (clamp_int oct i 8) - nat i. a * 0.5 ^ j * vnoise (scale3 p (f * 2.02 ^ j)))"
proof (induction p oct i a f s rule: fbm_loop.induct)
  case (1 p oct i a f s)
  show ?case
  proof (cases "i < 8 \<and> i < oct")
    case True
    define m where "m = nat (clamp_int oct (i + 1) 8) - nat (i + 1)"
    have n: "nat (clamp_int oct i 8) - nat i = Suc m"
      using True 1(2) by (auto simp: clamp_int_def m_def)
    have "fbm_loop p oct i a f s =
        fbm_loop p oct (i + 1) (a * 0.5) (f * 2.02) (s + a * vnoise (scale3 p f))"
      using True by (subst fbm_loop.simps) simp
    also have "\<dots> = (s + a * vnoise (scale3 p f)) +
        (\<Sum>j<m. (a * 0.5) * 0.5 ^ j * vnoise (scale3 p ((f * 2.02) * 2.02 ^ j)))"
      unfolding m_def using True 1(2,3) by (intro 1(1)) simp_all
    also have "\<dots> = s + (\<Sum>j<Suc m. a * 0.5 ^ j * vnoise (scale3 p (f * 2.02 ^ j)))"
      by (subst sum.lessThan_Suc_shift) (simp add: mult.assoc)
    finally show ?thesis
      unfolding n .
  next
    case False
    then have "nat (clamp_int oct i 8) - nat i = 0"
      using 1(2,3) by (auto simp: clamp_int_def)
    moreover have "fbm_loop p oct i a f s = s"
      using False by (subst fbm_loop.simps) auto
    ultimately show ?thesis by simp
  qed
qed

lemma fbm_eq_sum: "fbm p oct = fbm_sum p (nat (clamp_int oct 0 8))"
  unfolding fbm_def fbm_sum_def using fbm_loop_sum[of 0 p oct "0.5" 1 0]
  by (simp add: power_Suc)

lemma fbm_sum_bounds: "0 \<le> fbm_sum p n \<and> fbm_sum p n \<le> 1 - 0.5 ^ n"
proof (induction n)
  case 0
  show ?case by (simp add: fbm_sum_def)
next
  case (Suc n)
  define v where "v = vnoise (scale3 p (2.02 ^ n))"
  define e :: real where "e = 0.5 ^ (n + 1)"
  have v: "0 \<le> v" "v \<le> 1" unfolding v_def using vnoise_range by simp_all
  have e: "0 \<le> e" "0.5 ^ n = 2 * e" "0.5 ^ Suc n = e" unfolding e_def by simp_all
  have step: "fbm_sum p (Suc n) = fbm_sum p n + e * v"
    by (simp add: fbm_sum_def v_def e_def)
  have "0 \<le> e * v" using v e by (intro mult_nonneg_nonneg)
  moreover have "e * v \<le> e * 1"
    using v e by (intro mult_left_mono)
  ultimately show ?case using Suc unfolding step e by simp
qed

lemma h31_origin: "h31 (0, 0, 0) = 3310880657 / 3906250000"
  by (simp add: h31_def fract_def Let_def)

lemma vnoise_origin: "vnoise (0, 0, 0) = 3310880657 / 3906250000"
  using vnoise_lattice_point[of 0 0 0] by (simp add: h31_origin)

text \<open>
  Claim C2.  For every point \<open>p\<close>, \<open>vnoise p\<close> is the trilinear interpolation of
  \<open>h31\<close> at the eight corners of the lattice cell of \<open>p\<close> with the per-axis weight
  \<open>3 t\<^sup>2 - 2 t\<^sup>3\<close> of the fractional coordinate; it lies in \<open>[0, 1]\<close>; and at an
  integer lattice point it is \<open>h31\<close> of that point.
\<close>

theorem vnoise_trilinear_range_lattice:
  "vnoise p = trilinear_spec p
   \<and> 0 \<le> vnoise p \<and> vnoise p \<le> 1
   \<and> vnoise (of_int a, of_int b, of_int c) = h31 (of_int a, of_int b, of_int c)"
  using vnoise_eq_trilinear_spec vnoise_range vnoise_lattice_point by simp

text \<open>
  Claim C10.  For every point \<open>p\<close> and every integer octave count \<open>k\<close>,
  \<open>fbm p k\<close> lies between 0 and \<open>1 - 0.5 ^ min (max k 0) 8\<close>, hence is strictly
  below 1; and every \<open>k \<ge> 8\<close> gives the value of \<open>fbm p 8\<close>, the loop running at
  most eight times.
\<close>

theorem fbm_bounds_and_cap:
  "0 \<le> fbm p k
   \<and> fbm p k \<le> 1 - 0.5 ^ nat (min (max k 0) 8)
   \<and> fbm p k < 1
   \<and> (k \<ge> 8 \<longrightarrow> fbm p k = fbm p 8)"
proof -
  have b: "0 \<le> fbm p k \<and> fbm p k \<le> 1 - 0.5 ^ nat (min (max k 0) 8)"
    using fbm_sum_bounds[of p "nat (clamp_int k 0 8)"]
    by (simp add: fbm_eq_sum clamp_int_def)
  have "(0::real) < 0.5 ^ nat (min (max k 0) 8)" by simp
  with b have "fbm p k < 1" by linarith
  moreover have "k \<ge> 8 \<longrightarrow> fbm p k = fbm p 8"
    by (simp add: fbm_eq_sum clamp_int_def)
  ultimately show ?thesis using b by simp
qed

theorem fbm_bounds_and_cap_witness:
  "(12::int) \<ge> 8 \<and> fbm (1, 2, 3) 12 = fbm (1, 2, 3) 8 \<and> fbm (1, 2, 3) 12 < 1"
  using fbm_bounds_and_cap[of "(1, 2, 3)" 12] by simp

text \<open>
  Claim C1, as stated, clamps the octave count into \<open>[1, 8]\<close>, so that an octave
  count of 0 would give the one-octave value.  The code gives the empty sum there:
  at the origin \<open>fbm\<close> with 0 octaves is 0, while the one-octave sum is not.
\<close>

theorem fbm_clamp_1_8_counterexample:
  "fbm (0, 0, 0) 0 \<noteq> fbm_sum (0, 0, 0) (nat (clamp_int 0 1 8))
   \<and> fbm (0, 0, 0) 0 \<noteq> fbm (0, 0, 0) (clamp_int 0 1 8)"
  by (simp add: fbm_eq_sum clamp_int_def fbm_sum_def vnoise_origin)

text \<open>
  Claim C1, amended.  \<open>fbm p oct\<close> is the sum over the octave indices \<open>i\<close> from 0 of
  \<open>0.5 ^ (i + 1) * vnoise (p * 2.02 ^ i)\<close> with the octave count clamped into
  \<open>[0, 8]\<close>: the amplitude starts at 0.5 and halves, the frequency multiplies by
  2.02, and every octave count gives the value of \<open>fbm\<close> at the count clamped into
  \<open>[0, 8]\<close>.
\<close>

theorem fbm_sum_clamped_0_8:
  "fbm p oct = (\<Sum>i<nat (clamp_int oct 0 8). 0.5 ^ (i + 1) * vnoise (scale3 p (2.02 ^ i)))
   \<and> fbm p oct = fbm p (clamp_int oct 0 8)"
  by (simp add: fbm_eq_sum fbm_sum_def clamp_int_def)

section \<open>Properties of the displacement model\<close>

lemma mix3_zero: "mix3 a b 0 = a"
  by (cases a; cases b) (simp add: mix_def)

lemma coreDisp_eq_spec: "coreDisp u p = core_disp_spec (u_CoreLowAmp u) (u_CoreHiAmp u) p"
  by (simp add: coreDisp_def core_disp_spec_def lowStatic_def)

lemma coreDisp_ignores [simp]:
  "coreDisp (u\<lparr>u_MouseNDC := m\<rparr>) p = coreDisp u p"
  "coreDisp (u\<lparr>u_MouseStrength := s\<rparr>) p = coreDisp u p"
  "coreDisp (u\<lparr>u_MouseFalloff := f\<rparr>) p = coreDisp u p"
  "coreDisp (u\<lparr>u_MouseOn := b\<rparr>) p = coreDisp u p"
  "coreDisp (u\<lparr>u_Time := t\<rparr>) p = coreDisp u p"
  by (simp_all add: coreDisp_def)

lemma core_pass_height: "u_Pass u = 0 \<Longrightarrow> v_Height (main u pos) = coreDisp u (xyz pos)"
  by (simp add: main_def Let_def)

lemma add3_zero: "add3 v (0, 0, 0) = v"
  by (cases v) simp

lemma core_pass_displaced:
  assumes "u_Pass u = 0"
  shows "v_Pos (main u pos) =
     xyz (mat_vec (u_Model u)
       (vec4_of (add3 (xyz pos)
          (scale3 (normalize3 (adds3 (xyz pos) 0.000001)) (coreDisp u (xyz pos)))) 1))"
  using assms by (simp add: main_def Let_def add3_zero)

lemma core_pass_time:
  assumes "u_Pass u = 0"
  shows "v_Height (main (u\<lparr>u_Time := t\<rparr>) pos) = v_Height (main u pos)"
    and "v_Pos (main (u\<lparr>u_Time := t\<rparr>) pos) = v_Pos (main u pos)"
    and "gl_Position (main (u\<lparr>u_Time := t\<rparr>) pos) = gl_Position (main u pos)"
  using assms by (simp_all add: main_def Let_def)

text \<open>
  Claim C3.  In the core pass (\<open>u_Pass = 0\<close>), for every vertex and every uniform
  set, the displacement (the varying \<open>v_Height\<close>, and the offset along the normal
  in the displaced position) is
  \<open>coreLowAmp * (0.70 sin (0.85 y) + 0.50 cos (0.60 z) + 0.40 sin (0.60 x))
    + coreHiAmp * (vnoise (6 p) - 0.5)\<close>,
  and the displacement and the displaced position are the same at every time
  \<open>u_Time\<close>.
\<close>

theorem core_displacement_formula_time_invariant:
  assumes "u_Pass u = 0"
  shows "v_Height (main u pos) = core_disp_spec (u_CoreLowAmp u) (u_CoreHiAmp u) (xyz pos)
    \<and> v_Pos (main u pos) =
        xyz (mat_vec (u_Model u)
          (vec4_of (add3 (xyz pos)
             (scale3 (normalize3 (adds3 (xyz pos) 0.000001))
                (core_disp_spec (u_CoreLowAmp u) (u_CoreHiAmp u) (xyz pos)))) 1))
    \<and> v_Height (main (u\<lparr>u_Time := t\<rparr>) pos) = v_Height (main u pos)
    \<and> v_Pos (main (u\<lparr>u_Time := t\<rparr>) pos) = v_Pos (main u pos)
    \<and> gl_Position (main (u\<lparr>u_Time := t\<rparr>) pos) = gl_Position (main u pos)"
  using assms core_pass_height[of u pos] core_pass_displaced[of u pos]
    core_pass_time[of u t pos]
  by (simp add: coreDisp_eq_spec)

theorem core_displacement_formula_time_invariant_witness:
  "u_Pass (default_uniforms 0 0) = 0
   \<and> v_Height (main (default_uniforms 0 0) (0, 1, 0, 1)) = core_disp_spec 0.26 0.01 (0, 1, 0)
   \<and> v_Height (main ((default_uniforms 0 0)\<lparr>u_Time := 7\<rparr>) (0, 1, 0, 1))
       = v_Height (main (default_uniforms 0 0) (0, 1, 0, 1))"
proof -
  have p: "u_Pass (default_uniforms 0 0) = 0" by (simp add: default_uniforms_def)
  show ?thesis
    using p core_displacement_formula_time_invariant[OF p, where pos = "(0, 1, 0, 1)" and t = 7]
    by (simp add: default_uniforms_def)
qed

text \<open>On the values alone, the core pass does not read the mouse uniforms.\<close>

lemma main_core_pass_values_ignore_mouse:
  assumes "u_Pass u = 0"
  shows "main (u\<lparr>u_MouseNDC := m, u_MouseStrength := s, u_MouseFalloff := f, u_MouseOn := b\<rparr>) pos
         = main u pos"
  using assms by (simp add: main_def Let_def mix3_zero)

subsection \<open>Where the core pass is defined\<close>

lemma length3_zero_iff: "length3 v = 0 \<longleftrightarrow> dot3 v v = 0"
  by (simp add: length3_def)

lemma dot3_self_nonneg: "0 \<le> dot3 v v"
  by (cases v) simp

lemma normalize3_unit:
  assumes "length3 v \<noteq> 0"
  shows "dot3 (normalize3 v) (normalize3 v) = 1"
proof -
  obtain x y z where v: "v = (x, y, z)" by (cases v)
  define L where "L = length3 (x, y, z)"
  have L0: "L \<noteq> 0" using assms by (simp add: L_def v)
  have LL: "L * L = x * x + y * y + z * z"
    unfolding L_def length3_def using dot3_self_nonneg[of "(x, y, z)"] by simp
  have "dot3 (normalize3 v) (normalize3 v) = (x * x + y * y + z * z) / (L * L)"
    unfolding v normalize3.simps L_def[symmetric] by (simp add: add_divide_distrib)
  also have "\<dots> = 1" unfolding LL[symmetric] using L0 by simp
  finally show ?thesis .
qed

lemma normalize3_nan_unit:
  "normalize3_nan v = Some n \<Longrightarrow> dot3 n n = 1 \<and> n = normalize3 v"
  by (auto simp: normalize3_nan_def normalize3_unit split: if_splits)

lemma unit_defined: "dot3 n n = 1 \<Longrightarrow> normalize3_nan n = Some (normalize3 n)"
  by (simp add: normalize3_nan_def length3_def)

lemma nonzero_defined: "dot3 v v \<noteq> 0 \<Longrightarrow> normalize3_nan v = Some (normalize3 v)"
  by (simp add: normalize3_nan_def length3_def)

lemma dot_cross_left: "dot3 n (cross n a) = 0"
  by (cases n; cases a) (simp add: algebra_simps)

lemma dot_cross_right: "dot3 (cross n t) t = 0"
  by (cases n; cases t) (simp add: algebra_simps)

lemma dot3_normalize_right: "dot3 a (normalize3 v) = dot3 a v / length3 v"
  by (cases a; cases v) (simp add: add_divide_distrib)

lemma dot3_normalize_left: "dot3 (normalize3 v) a = dot3 v a / length3 v"
  by (cases a; cases v) (simp add: add_divide_distrib)

lemma lagrange: "dot3 (cross n t) (cross n t) = dot3 n n * dot3 t t - dot3 n t * dot3 n t"
  by (cases n; cases t) (simp add: algebra_simps)

lemma frame_axis_nonzero:
  assumes "dot3 n n = 1"
  shows "dot3 (cross n (if \<bar>vy n\<bar> < 0.99 then (0, 1, 0) else (1, 0, 0)))
              (cross n (if \<bar>vy n\<bar> < 0.99 then (0, 1, 0) else (1, 0, 0))) \<noteq> 0"
proof -
  obtain x y z where n: "n = (x, y, z)" by (cases n)
  have u: "x * x + y * y + z * z = 1" using assms by (simp add: n)
  show ?thesis
  proof (cases "\<bar>y\<bar> < 0.99")
    case True
    have ax: "(if \<bar>vy n\<bar> < 0.99 then (0, 1, 0) else (1, 0, 0)) = (0, 1, 0::real)"
      using True by (simp add: n)
    have "y * y < 1"
    proof -
      have "y * y = \<bar>y\<bar> * \<bar>y\<bar>" by simp
      also have "\<dots> \<le> 0.99 * \<bar>y\<bar>" using True by (intro mult_right_mono) simp_all
      also have "\<dots> < 1" using True by simp
      finally show ?thesis .
    qed
    then have pos: "0 < x * x + z * z" using u by linarith
    have e: "dot3 (cross n (0, 1, 0)) (cross n (0, 1, 0)) = x * x + z * z"
      by (simp add: n)
    show ?thesis unfolding ax e using pos by linarith
  next
    case False
    have ax: "(if \<bar>vy n\<bar> < 0.99 then (0, 1, 0) else (1, 0, 0)) = (1, 0, 0::real)"
      using False by (simp add: n)
    from False have "y \<noteq> 0" by auto
    then have "0 < y * y" using not_real_square_gt_zero[of y] by blast
    moreover have "0 \<le> z * z" by simp
    ultimately have pos: "0 < z * z + y * y" by linarith
    have e: "dot3 (cross n (1, 0, 0)) (cross n (1, 0, 0)) = z * z + y * y"
      by (simp add: n)
    show ?thesis unfolding ax e using pos by linarith
  qed
qed

lemma combo_norm:
  assumes "dot3 s s = 1" "dot3 t t = 1" "dot3 s t = 0"
  shows "dot3 (add3 (scale3 s a) (scale3 t b)) (add3 (scale3 s a) (scale3 t b)) = a * a + b * b"
proof -
  obtain s1 s2 s3 where s: "s = (s1, s2, s3)" by (cases s)
  obtain t1 t2 t3 where t: "t = (t1, t2, t3)" by (cases t)
  have a1: "s1 * s1 + s2 * s2 + s3 * s3 = 1" and a2: "t1 * t1 + t2 * t2 + t3 * t3 = 1"
    and a3: "s1 * t1 + s2 * t2 + s3 * t3 = 0"
    using assms by (simp_all add: s t)
  have "dot3 (add3 (scale3 s a) (scale3 t b)) (add3 (scale3 s a) (scale3 t b))
      = a * a * (s1 * s1 + s2 * s2 + s3 * s3) + b * b * (t1 * t1 + t2 * t2 + t3 * t3)
        + 2 * a * b * (s1 * t1 + s2 * t2 + s3 * t3)"
    by (simp add: s t algebra_simps)
  then show ?thesis unfolding a1 a2 a3 by simp
qed

lemma normalize2_unit:
  assumes "length2 v \<noteq> 0"
  shows "fst (normalize2 v) * fst (normalize2 v) + snd (normalize2 v) * snd (normalize2 v) = 1"
proof -
  obtain x y where v: "v = (x, y)" by (cases v)
  define L where "L = length2 (x, y)"
  have L0: "L \<noteq> 0" using assms by (simp add: L_def v)
  have "0 \<le> x * x + y * y" by simp
  then have LL: "L * L = x * x + y * y" unfolding L_def by simp
  have "fst (normalize2 v) * fst (normalize2 v) + snd (normalize2 v) * snd (normalize2 v)
      = (x * x + y * y) / (L * L)"
    unfolding v normalize2.simps L_def[symmetric] by (simp add: add_divide_distrib)
  also have "\<dots> = 1" unfolding LL[symmetric] using L0 by simp
  finally show ?thesis .
qed

text \<open>the frame: from a unit normal, both tangents and every unit combination are defined\<close>
lemma frame_defined:
  assumes n: "dot3 n n = 1" and m: "a * a + b * b = 1"
  defines "ax \<equiv> (if \<bar>vy n\<bar> < 0.99 then (0, 1, 0) else (1, 0, 0))"
  defines "t1 \<equiv> normalize3 (cross n ax)"
  defines "t2 \<equiv> normalize3 (cross n t1)"
  shows "normalize3_nan (cross n ax) = Some t1"
    and "normalize3_nan (cross n t1) = Some t2"
    and "normalize3_nan (add3 (scale3 t1 a) (scale3 t2 b))
         = Some (normalize3 (add3 (scale3 t1 a) (scale3 t2 b)))"
proof -
  have c1: "dot3 (cross n ax) (cross n ax) \<noteq> 0"
    unfolding ax_def by (rule frame_axis_nonzero[OF n])
  then have l1: "length3 (cross n ax) \<noteq> 0" by (simp add: length3_zero_iff)
  show d1: "normalize3_nan (cross n ax) = Some t1"
    unfolding t1_def by (rule nonzero_defined[OF c1])
  have u1: "dot3 t1 t1 = 1" unfolding t1_def by (rule normalize3_unit[OF l1])
  have p1: "dot3 n t1 = 0"
    unfolding t1_def dot3_normalize_right dot_cross_left by simp
  have c2: "dot3 (cross n t1) (cross n t1) = 1"
    unfolding lagrange n u1 p1 by simp
  then have c2': "dot3 (cross n t1) (cross n t1) \<noteq> 0" by simp
  then have l2: "length3 (cross n t1) \<noteq> 0" by (simp add: length3_zero_iff)
  show d2: "normalize3_nan (cross n t1) = Some t2"
    unfolding t2_def by (rule nonzero_defined[OF c2'])
  have u2: "dot3 t2 t2 = 1" unfolding t2_def by (rule normalize3_unit[OF l2])
  have p2: "dot3 t1 t2 = 0"
  proof -
    have "dot3 t2 t1 = 0"
      unfolding t2_def dot3_normalize_left dot_cross_right by simp
    then show ?thesis by (cases t1; cases t2) (simp add: mult.commute)
  qed
  have "dot3 (add3 (scale3 t1 a) (scale3 t2 b)) (add3 (scale3 t1 a) (scale3 t2 b)) = 1"
    unfolding combo_norm[OF u1 u2 p2] by (rule m)
  then show "normalize3_nan (add3 (scale3 t1 a) (scale3 t2 b))
         = Some (normalize3 (add3 (scale3 t1 a) (scale3 t2 b)))"
    by (rule unit_defined)
qed

text \<open>In the core pass the position, the height and the varyings computed from
  the displaced position do not read the mouse, defined or not.\<close>

lemma core_pass_geometry_immune_nan:
  fixes u m s f b
  defines "u' \<equiv> u\<lparr>u_MouseNDC := m, u_MouseStrength := s, u_MouseFalloff := f, u_MouseOn := b\<rparr>"
  assumes "u_Pass u = 0"
  shows "v_Pos_nan (main_nan u' pos) = v_Pos_nan (main_nan u pos)"
    and "v_Height_nan (main_nan u' pos) = v_Height_nan (main_nan u pos)"
    and "v_Radial_nan (main_nan u' pos) = v_Radial_nan (main_nan u pos)"
    and "v_Rim_nan (main_nan u' pos) = v_Rim_nan (main_nan u pos)"
    and "v_Grain_nan (main_nan u' pos) = v_Grain_nan (main_nan u pos)"
    and "gl_Position_nan (main_nan u' pos) = gl_Position_nan (main_nan u pos)"
  using assms(2) unfolding u'_def by (simp_all add: main_nan_def Let_def)

lemma core_pass_defined:
  assumes pass: "u_Pass u = 0"
    and n: "length3 (adds3 (xyz pos) 0.000001) \<noteq> 0"
    and up: "length3 (u_UpDir u) \<noteq> 0"
    and w: "vw (core_base_clip u pos) \<noteq> 0"
    and m: "length2 (adds2 (sub2 (u_MouseNDC u) (ndc_of (core_base_clip u pos))) 0.000001) \<noteq> 0"
  shows "v_UpDot_nan (main_nan u pos) = Some (v_UpDot (main u pos))"
    and "v_Core_nan (main_nan u pos) = Some (v_Core (main u pos))"
proof -
  define p where "p = xyz pos"
  define nn where "nn = normalize3 (adds3 p 0.000001)"
  define U where "U = normalize3 (u_UpDir u)"
  define ax :: vec3 where "ax = (if \<bar>vy nn\<bar> < 0.99 then (0, 1, 0) else (1, 0, 0))"
  define t1 where "t1 = normalize3 (cross nn ax)"
  define t2 where "t2 = normalize3 (cross nn t1)"
  define c where "c = core_base_clip u pos"
  define tm where "tm = normalize2 (adds2 (sub2 (u_MouseNDC u) (ndc_of c)) 0.000001)"
  have nd: "normalize3_nan (adds3 p 0.000001) = Some nn"
    using n by (simp add: normalize3_nan_def nn_def p_def)
  have ud: "normalize3_nan (u_UpDir u) = Some U"
    using up by (simp add: normalize3_nan_def U_def)
  have nu: "dot3 nn nn = 1" unfolding nn_def p_def by (rule normalize3_unit[OF n])
  have Uu: "dot3 U U = 1" unfolding U_def by (rule normalize3_unit[OF up])
  have Ud: "normalize3_nan U = Some (normalize3 U)" by (rule unit_defined[OF Uu])
  have tmu: "fst tm * fst tm + snd tm * snd tm = 1"
    unfolding tm_def c_def by (rule normalize2_unit[OF m])
  have md: "normalize2_nan (adds2 (sub2 (u_MouseNDC u) (ndc_of c)) 0.000001) = Some tm"
    using m by (simp add: normalize2_nan_def tm_def c_def)
  note fr = frame_defined[OF nu tmu, folded ax_def, folded t1_def, folded t2_def]
  obtain cx cy cz cw where ct: "c = (cx, cy, cz, cw)" by (cases c) auto
  have cw: "cw \<noteq> 0" using w by (simp add: c_def[symmetric] ct)
  have cd: "ndc_nan c = Some (ndc_of c)" using cw by (simp add: ct)
  have clip: "mat_vec (mat_mat (u_ViewProj u) (u_Model u))
      (vec4_of (scale3 (add3 p (scale3 nn (coreDisp u p))) (u_SceneScale u * u_CoreScale u)) 1) = c"
    by (simp add: c_def core_base_clip_def Let_def p_def nn_def)
  have nd': "normalize3_nan (adds3 p (1 / 1000000)) = Some nn" using nd by simp
  have md': "normalize2_nan (adds2 (sub2 (u_MouseNDC u) (ndc_of c)) (1 / 1000000)) = Some tm"
    using md by simp
  have axd: "(if \<bar>vy nn\<bar> * 100 < 99 then (0, 1, 0) else (1, 0, 0)) = ax"
    by (simp add: ax_def)
  have nn': "normalize3 (adds3 p (1 / 1000000)) = nn" by (simp add: nn_def)
  show "v_UpDot_nan (main_nan u pos) = Some (v_UpDot (main u pos))"
    unfolding main_nan_def main_def Let_def p_def[symmetric]
    by (simp add: pass nd' ud clip cd md' axd fr Ud mix3_zero nn' U_def[symmetric]
        cong: if_cong)
  show "v_Core_nan (main_nan u pos) = Some (v_Core (main u pos))"
    unfolding main_nan_def main_def Let_def p_def[symmetric]
    by (simp add: pass nd' ud clip cd md' axd fr Ud mix3_zero nn' U_def[symmetric]
        fbm_nan_def cong: if_cong)
qed

text \<open>Where the normal is defined, these agree with the values of \<open>main\<close>.\<close>

lemma core_pass_geometry_agrees:
  assumes "u_Pass u = 0" and "length3 (adds3 (xyz pos) 0.000001) \<noteq> 0"
  shows "v_Pos_nan (main_nan u pos) = Some (v_Pos (main u pos))"
    and "v_Height_nan (main_nan u pos) = Some (v_Height (main u pos))"
    and "v_Radial_nan (main_nan u pos) = Some (v_Radial (main u pos))"
    and "v_Rim_nan (main_nan u pos) = Some (v_Rim (main u pos))"
    and "v_Grain_nan (main_nan u pos) = Some (v_Grain (main u pos))"
    and "gl_Position_nan (main_nan u pos) = Some (gl_Position (main u pos))"
  using assms by (simp_all add: main_nan_def main_def Let_def normalize3_nan_def)

lemma core_base_clip_ignores_mouse:
  "core_base_clip (u\<lparr>u_MouseNDC := m, u_MouseStrength := s, u_MouseFalloff := f, u_MouseOn := b\<rparr>) pos
   = core_base_clip u pos"
  by (simp add: core_base_clip_def Let_def)

text \<open>Where the direction towards the cursor is defined for both cursor
  positions, \<open>v_UpDot\<close> and \<open>v_Core\<close> of the core pass agree as well.\<close>

lemma core_pass_shading_immune_where_defined:
  fixes u m s f b
  defines "u' \<equiv> u\<lparr>u_MouseNDC := m, u_MouseStrength := s, u_MouseFalloff := f, u_MouseOn := b\<rparr>"
  assumes pass: "u_Pass u = 0"
    and n: "length3 (adds3 (xyz pos) 0.000001) \<noteq> 0"
    and up: "length3 (u_UpDir u) \<noteq> 0"
    and w: "vw (core_base_clip u pos) \<noteq> 0"
    and d: "length2 (adds2 (sub2 (u_MouseNDC u) (ndc_of (core_base_clip u pos))) 0.000001) \<noteq> 0"
    and d': "length2 (adds2 (sub2 m (ndc_of (core_base_clip u pos))) 0.000001) \<noteq> 0"
  shows "v_UpDot_nan (main_nan u' pos) = v_UpDot_nan (main_nan u pos)"
    and "v_Core_nan (main_nan u' pos) = v_Core_nan (main_nan u pos)"
proof -
  have c: "core_base_clip u' pos = core_base_clip u pos"
    unfolding u'_def by (rule core_base_clip_ignores_mouse)
  have pass': "u_Pass u' = 0" and up': "length3 (u_UpDir u') \<noteq> 0" and mm: "u_MouseNDC u' = m"
    using pass up by (simp_all add: u'_def)
  have w': "vw (core_base_clip u' pos) \<noteq> 0" unfolding c by (rule w)
  have dd: "length2 (adds2 (sub2 (u_MouseNDC u') (ndc_of (core_base_clip u' pos))) 0.000001) \<noteq> 0"
    unfolding c mm by (rule d')
  have e: "main u' pos = main u pos"
    unfolding u'_def by (rule main_core_pass_values_ignore_mouse[OF pass])
  show "v_UpDot_nan (main_nan u' pos) = v_UpDot_nan (main_nan u pos)"
    unfolding core_pass_defined(1)[OF pass n up w d] core_pass_defined(1)[OF pass' n up' w' dd] e ..
  show "v_Core_nan (main_nan u' pos) = v_Core_nan (main_nan u pos)"
    unfolding core_pass_defined(2)[OF pass n up w d] core_pass_defined(2)[OF pass' n up' w' dd] e ..
qed



section \<open>Properties of the orbit camera\<close>

lemma orbit_step_config: "orbit_config ob \<Longrightarrow> orbit_config (orbit_step ob ev)"
  by (cases ev)
    (simp_all add: orbit_config_def on_mousedown_def on_mouseup_def on_mousemove_def
      on_wheel_def Let_def)

lemma orbit_step_bounds:
  "orbit_config ob \<Longrightarrow> orbit_in_bounds ob \<Longrightarrow> orbit_in_bounds (orbit_step ob ev)"
  by (cases ev)
    (auto simp: orbit_config_def orbit_in_bounds_def on_mousedown_def on_mouseup_def
      on_mousemove_def on_wheel_def Let_def)

lemma orbit_run_inv:
  "orbit_config ob \<Longrightarrow> orbit_in_bounds ob \<Longrightarrow>
   orbit_config (orbit_run ob evs) \<and> orbit_in_bounds (orbit_run ob evs)"
  unfolding orbit_run_def
  by (induction evs arbitrary: ob) (simp_all add: orbit_step_config orbit_step_bounds)

lemma orbit_init_ok: "orbit_config orbit_init \<and> orbit_in_bounds orbit_init"
  by (simp add: orbit_config_def orbit_in_bounds_def orbit_init_def)

lemma drag_clamps_pitch:
  "dragging ob \<Longrightarrow> minPitch ob \<le> maxPitch ob \<Longrightarrow>
   minPitch ob \<le> pitch (on_mousemove ob x y) \<and> pitch (on_mousemove ob x y) \<le> maxPitch ob"
  by (simp add: on_mousemove_def Let_def)

lemma wheel_clamps_radius:
  "minRadius ob \<le> maxRadius ob \<Longrightarrow>
   minRadius ob \<le> radius (on_wheel ob d) \<and> radius (on_wheel ob d) \<le> maxRadius ob"
  by (simp add: on_wheel_def Let_def)

text \<open>
  Claim C8.  From the initial orbit state (pitch 0.2, radius 8), after every finite
  sequence of mouse-down, mouse-up, mouse-move and wheel events the pitch is in
  \<open>[-1.4, 1.4]\<close> and the radius in \<open>[2.5, 50]\<close>; and from any state whose bounds are
  ordered, a drag update leaves the pitch within \<open>[minPitch, maxPitch]\<close> and a scroll
  update leaves the radius within \<open>[minRadius, maxRadius]\<close>.
\<close>

theorem orbit_bounds_invariant:
  "- 1.4 \<le> pitch (orbit_run orbit_init evs) \<and> pitch (orbit_run orbit_init evs) \<le> 1.4
   \<and> 2.5 \<le> radius (orbit_run orbit_init evs) \<and> radius (orbit_run orbit_init evs) \<le> 50
   \<and> (dragging ob \<and> minPitch ob \<le> maxPitch ob \<longrightarrow>
        minPitch ob \<le> pitch (on_mousemove ob x y) \<and> pitch (on_mousemove ob x y) \<le> maxPitch ob)
   \<and> (minRadius ob \<le> maxRadius ob \<longrightarrow>
        minRadius ob \<le> radius (on_wheel ob d) \<and> radius (on_wheel ob d) \<le> maxRadius ob)"
proof -
  have "orbit_config (orbit_run orbit_init evs) \<and> orbit_in_bounds (orbit_run orbit_init evs)"
    using orbit_init_ok by (intro orbit_run_inv) simp_all
  then show ?thesis
    using drag_clamps_pitch[of ob x y] wheel_clamps_radius[of ob d]
    by (simp add: orbit_config_def orbit_in_bounds_def)
qed

theorem orbit_bounds_invariant_witness:
  "dragging (orbit_init\<lparr>dragging := True\<rparr>)
   \<and> minPitch (orbit_init\<lparr>dragging := True\<rparr>) \<le> maxPitch (orbit_init\<lparr>dragging := True\<rparr>)
   \<and> minRadius (orbit_init\<lparr>dragging := True\<rparr>) \<le> maxRadius (orbit_init\<lparr>dragging := True\<rparr>)
   \<and> pitch (on_mousemove (orbit_init\<lparr>dragging := True\<rparr>) 3 1000) \<le> 1.4
   \<and> 2.5 \<le> radius (on_wheel (orbit_init\<lparr>dragging := True\<rparr>) (- 120))
   \<and> pitch (orbit_run orbit_init [MouseDown 0 0, MouseMove 3 1000, Wheel (- 120), MouseUp]) \<le> 1.4"
  using orbit_bounds_invariant[of "[MouseDown 0 0, MouseMove 3 1000, Wheel (- 120), MouseUp]"
      "orbit_init\<lparr>dragging := True\<rparr>" 3 1000 "- 120"]
  by (simp add: orbit_init_def)

section \<open>Properties of the audio analyser\<close>

lemma stop_resets:
  "aBass (stopTabAudioCapture s) = 0 \<and> aMid (stopTabAudioCapture s) = 0
   \<and> aTre (stopTabAudioCapture s) = 0 \<and> aBeat (stopTabAudioCapture s) = 0
   \<and> ema (stopTabAudioCapture s) = 0 \<and> lastBeatT (stopTabAudioCapture s) = 0"
  by (simp add: stopTabAudioCapture_def Let_def split: option.splits)

lemma stop_releases:
  "tabStream (stopTabAudioCapture s) = None \<and> audioCtx (stopTabAudioCapture s) = None
   \<and> analyser (stopTabAudioCapture s) = None \<and> fft (stopTabAudioCapture s) = None"
  by (simp add: stopTabAudioCapture_def Let_def split: option.splits)

lemma wire_keeps_levels:
  "aBass (wireAnalyserFromStream st r sm s) = aBass s"
  "aMid (wireAnalyserFromStream st r sm s) = aMid s"
  "aTre (wireAnalyserFromStream st r sm s) = aTre s"
  "aBeat (wireAnalyserFromStream st r sm s) = aBeat s"
  "ema (wireAnalyserFromStream st r sm s) = ema s"
  "lastBeatT (wireAnalyserFromStream st r sm s) = lastBeatT s"
  by (simp_all add: wireAnalyserFromStream_def)

text \<open>
  Claim C9.  Stopping the capture, by hand (the Fireball toggle switched off) or by
  the \<^verbatim>\<open>ended\<close> event of a captured track, sets the four audio levels to 0 and
  resets the beat detector (EMA 0, debounce timer 0); a source wired after the stop
  starts with these zeros.
\<close>

theorem stop_capture_zeroes_levels_and_beat_state:
  "aBass (audio (fireball_off st)) = 0 \<and> aMid (audio (fireball_off st)) = 0
   \<and> aTre (audio (fireball_off st)) = 0 \<and> aBeat (audio (fireball_off st)) = 0
   \<and> ema (audio (fireball_off st)) = 0 \<and> lastBeatT (audio (fireball_off st)) = 0
   \<and> aBass (audio (track_ended st)) = 0 \<and> aMid (audio (track_ended st)) = 0
   \<and> aTre (audio (track_ended st)) = 0 \<and> aBeat (audio (track_ended st)) = 0
   \<and> ema (audio (track_ended st)) = 0 \<and> lastBeatT (audio (track_ended st)) = 0
   \<and> audio (track_ended st) = stopTabAudioCapture (audio st)
   \<and> audio (fireball_off st) = stopTabAudioCapture (audio st)
   \<and> aBass (wireAnalyserFromStream stream rate sm (stopTabAudioCapture s)) = 0
   \<and> aMid (wireAnalyserFromStream stream rate sm (stopTabAudioCapture s)) = 0
   \<and> aTre (wireAnalyserFromStream stream rate sm (stopTabAudioCapture s)) = 0
   \<and> aBeat (wireAnalyserFromStream stream rate sm (stopTabAudioCapture s)) = 0
   \<and> ema (wireAnalyserFromStream stream rate sm (stopTabAudioCapture s)) = 0
   \<and> lastBeatT (wireAnalyserFromStream stream rate sm (stopTabAudioCapture s)) = 0"
  using stop_resets[of "audio st"] stop_resets[of s]
  by (simp add: fireball_off_def track_ended_def on_track_ended_def wire_keeps_levels)

lemma beat_update_fields:
  "ema (beat_update nowE sens t s) = ema_next (ema s) nowE"
  "aBeat (beat_update nowE sens t s) =
     (if beat_fires s nowE sens t then 1 else max 0 (aBeat s - 3.5 * (1 / 60)))"
  "lastBeatT (beat_update nowE sens t s) = (if beat_fires s nowE sens t then t else lastBeatT s)"
  by (simp_all add: beat_update_def Let_def)

lemma fired_iff:
  "fired sens s (b, m, t) \<longleftrightarrow> above sens s (b, m, t) \<and> t - lastBeatT s > 0.26"
  by (auto simp: beat_fires_def Let_def minBeatInterval_def)

lemma beat_run_simps [simp]:
  "beat_run sens s [] = s"
  "beat_run sens s (x # xs) = beat_run sens (beat_step sens s x) xs"
  "beat_run sens s (xs @ ys) = beat_run sens (beat_run sens s xs) ys"
  by (simp_all add: beat_run_def)

text \<open>A quiet stretch fires no beat and leaves the debounce timer alone.\<close>

lemma quiet_run:
  "quiet sens s xs \<Longrightarrow>
   beat_count sens s xs = 0 \<and> lastBeatT (beat_run sens s xs) = lastBeatT s"
proof (induction xs arbitrary: s)
  case Nil
  then show ?case by simp
next
  case (Cons x xs)
  obtain b m t where x: "x = (b, m, t)" by (cases x)
  have nf: "\<not> fired sens s x"
    using Cons.prems unfolding x by (simp add: fired_iff del: fired.simps above.simps)
  have "lastBeatT (beat_step sens s x) = lastBeatT s"
    using nf unfolding x by (simp add: beat_update_fields)
  then show ?case using Cons nf by simp
qed

lemma beat_count_append:
  "beat_count sens s (xs @ ys) =
   beat_count sens s xs + beat_count sens (beat_run sens s xs) ys"
  by (induction xs arbitrary: s) simp_all

lemma two_spikes:
  assumes pre: "quiet sens s0 pre"
    and a1: "above sens (beat_run sens s0 pre) (b1, m1, t1)"
    and w1: "t1 - lastBeatT s0 > 0.26"
    and mid: "quiet sens (beat_run sens s0 (pre @ [(b1, m1, t1)])) mid"
    and a2: "above sens (beat_run sens s0 (pre @ [(b1, m1, t1)] @ mid)) (b2, m2, t2)"
    and post: "quiet sens (beat_run sens s0 (pre @ [(b1, m1, t1)] @ mid @ [(b2, m2, t2)])) post"
  shows "beat_count sens s0 (pre @ [(b1, m1, t1)] @ mid @ [(b2, m2, t2)] @ post)
         = (if t2 - t1 > 0.26 then 2 else 1)"
proof -
  let ?x1 = "(b1, m1, t1)" and ?x2 = "(b2, m2, t2)"
  define s1 where "s1 = beat_run sens s0 pre"
  define s2 where "s2 = beat_step sens s1 ?x1"
  define s3 where "s3 = beat_run sens s2 mid"
  define s4 where "s4 = beat_step sens s3 ?x2"
  have q0: "beat_count sens s0 pre = 0" "lastBeatT s1 = lastBeatT s0"
    using quiet_run[OF pre] by (simp_all add: s1_def)
  have f1: "fired sens s1 ?x1"
    using a1 w1 q0 unfolding fired_iff s1_def by simp
  then have l2: "lastBeatT s2 = t1"
    unfolding s2_def by (simp add: beat_update_fields)
  have qm: "quiet sens s2 mid" using mid by (simp add: s2_def s1_def)
  have q2: "beat_count sens s2 mid = 0" "lastBeatT s3 = t1"
    using quiet_run[OF qm] l2 by (simp_all add: s3_def)
  have a2': "above sens s3 ?x2" using a2 by (simp add: s3_def s2_def s1_def)
  have f2: "fired sens s3 ?x2 \<longleftrightarrow> t2 - t1 > 0.26"
    using a2' q2 unfolding fired_iff by simp
  have qp: "quiet sens s4 post" using post by (simp add: s4_def s3_def s2_def s1_def)
  have q4: "beat_count sens s4 post = 0" using quiet_run[OF qp] by simp
  have "beat_count sens s0 (pre @ [?x1] @ mid @ [?x2] @ post)
      = beat_count sens s0 pre + ((if fired sens s1 ?x1 then 1 else 0)
        + (beat_count sens s2 mid
           + ((if fired sens s3 ?x2 then 1 else 0) + beat_count sens s4 post)))"
    by (simp add: beat_count_append s1_def s2_def s3_def s4_def
        del: fired.simps beat_step.simps)
  then show ?thesis using q0 f1 q2 f2 q4 by simp
qed

text \<open>The analysis step runs the beat detector on the energy of the band levels
  it stores.\<close>

lemma updateAudioLevels_runs_beat_step:
  assumes "analyser s = Some an" "audioCtx s = Some cx"
  shows "\<exists>s'. ema s' = ema s \<and> aBeat s' = aBeat s \<and> lastBeatT s' = lastBeatT s
     \<and> updateAudioLevels sm sens inp s =
         (beat_step sens s'
            (aBass (updateAudioLevels sm sens inp s), aMid (updateAudioLevels sm sens inp s),
             currentTime inp))
         \<lparr>aBass := aBass (updateAudioLevels sm sens inp s),
          aMid := aMid (updateAudioLevels sm sens inp s),
          aTre := aTre (updateAudioLevels sm sens inp s)\<rparr>"
  using assms
  by (intro exI[of _ "s\<lparr>analyser := Some (an\<lparr>smoothingTimeConstant := sm\<rparr>),
        fft := Some (fill_bytes (fftSize an div 2) (freqData inp))\<rparr>"])
     (simp add: updateAudioLevels_def Let_def beat_update_def)

text \<open>
  Claim C7, as stated, fails on the code in three places.  (1) The debounce test is
  strict: with exactly 0.26 s elapsed and the energy above the threshold (on the EMA
  before or after its update) no beat fires.  (2) The decay is a fixed \<open>3.5 / 60\<close>
  per analysis call, whatever time has elapsed: 0.1 s after a beat the level is
  \<open>1 - 3.5 / 60\<close>, not \<open>1 - 0.35\<close>.  (3) The debounce timer starts at 0, so of two
  above-threshold spikes 0.4 s apart, the first 0.1 s after the start of the audio
  clock, only one fires.
\<close>

theorem beat_rule_counterexample:
  "beat_fires_spec (beat_energy 1 0) 0.1 1.35 1.26 1
   \<and> beat_fires_spec (beat_energy 1 0) (ema_next 0.1 (beat_energy 1 0)) 1.35 1.26 1
   \<and> \<not> fired 1.35 (audio_init\<lparr>ema := 0.1, lastBeatT := 1, aBeat := 0.5\<rparr>) (1, 0, 1.26)
   \<and> aBeat (beat_step 1.35 (audio_init\<lparr>ema := 0.1, lastBeatT := 1, aBeat := 0.5\<rparr>) (1, 0, 1.26)) \<noteq> 1
   \<and> lastBeatT (beat_step 1.35 (audio_init\<lparr>ema := 0.1, lastBeatT := 1, aBeat := 0.5\<rparr>) (1, 0, 1.26)) = 1
   \<and> aBeat (beat_step 1.35 (audio_init\<lparr>ema := 0.5, lastBeatT := 1, aBeat := 1\<rparr>) (0, 0, 1.1))
       \<noteq> beat_decay_spec 1 (1.1 - 1)
   \<and> above 1.35 (beat_run 1.35 audio_init [(0.1, 0, 0.05)]) (1, 0, 0.1)
   \<and> above 1.35 (beat_run 1.35 audio_init [(0.1, 0, 0.05), (1, 0, 0.1)]) (1, 0, 0.5)
   \<and> \<not> above 1.35 audio_init (0.1, 0, 0.05)
   \<and> beat_count 1.35 audio_init [(0.1, 0, 0.05), (1, 0, 0.1), (1, 0, 0.5)] \<noteq> 2"
  by (simp add: beat_fires_spec_def beat_decay_spec_def beat_energy_def ema_next_def
      beat_fires_def beat_update_def Let_def minBeatInterval_def audio_init_def)

text \<open>
  Claim C7, amended.  In one analysis call the EMA is first updated by the current
  beat energy \<open>bass * 1.0 + mid * 0.25\<close> (an EMA of 0 is first replaced by the
  energy); a beat fires exactly when the energy exceeds the updated EMA times
  \<open>max 0.5 sensitivity\<close> and strictly more than 0.26 s have elapsed on the audio
  clock since the last beat (the timer starts at 0).  Firing sets the beat level to
  1 and the debounce timer to the current time; otherwise the beat level drops by
  \<open>3.5 / 60\<close> for this call, floored at 0, and the timer is kept.  In particular,
  for a signal whose only above-threshold samples are two spikes, the first more
  than 0.26 s after the last beat, two beats fire if the spikes are more than
  0.26 s apart and exactly one otherwise.
\<close>

theorem beat_rule_strict_debounce_per_call_decay:
  "(fired sens s (bass, mid, t) \<longleftrightarrow>
      beat_energy bass mid > ema (beat_step sens s (bass, mid, t)) * max 0.5 sens
      \<and> t - lastBeatT s > 0.26)
   \<and> beat_energy bass mid = bass * 1.0 + mid * 0.25
   \<and> ema (beat_step sens s (bass, mid, t)) =
       0.85 * (if ema s = 0 then beat_energy bass mid else ema s) + 0.15 * beat_energy bass mid
   \<and> aBeat (beat_step sens s (bass, mid, t)) =
       (if fired sens s (bass, mid, t) then 1 else max 0 (aBeat s - 3.5 / 60))
   \<and> lastBeatT (beat_step sens s (bass, mid, t)) =
       (if fired sens s (bass, mid, t) then t else lastBeatT s)
   \<and> (quiet sens s0 pre
       \<and> above sens (beat_run sens s0 pre) (b1, m1, t1)
       \<and> t1 - lastBeatT s0 > 0.26
       \<and> quiet sens (beat_run sens s0 (pre @ [(b1, m1, t1)])) gap
       \<and> above sens (beat_run sens s0 (pre @ [(b1, m1, t1)] @ gap)) (b2, m2, t2)
       \<and> quiet sens (beat_run sens s0 (pre @ [(b1, m1, t1)] @ gap @ [(b2, m2, t2)])) post
       \<longrightarrow> beat_count sens s0 (pre @ [(b1, m1, t1)] @ gap @ [(b2, m2, t2)] @ post)
            = (if t2 - t1 > 0.26 then 2 else 1))"
proof -
  have e: "ema (beat_step sens s (bass, mid, t)) =
       0.85 * (if ema s = 0 then beat_energy bass mid else ema s) + 0.15 * beat_energy bass mid"
    by (simp add: beat_update_fields ema_next_def Let_def)
  have f: "fired sens s (bass, mid, t) \<longleftrightarrow>
      beat_energy bass mid > ema (beat_step sens s (bass, mid, t)) * max 0.5 sens
      \<and> t - lastBeatT s > 0.26"
    unfolding fired_iff by (simp add: beat_update_fields)
  have b: "aBeat (beat_step sens s (bass, mid, t)) =
       (if fired sens s (bass, mid, t) then 1 else max 0 (aBeat s - 3.5 / 60))"
    and l: "lastBeatT (beat_step sens s (bass, mid, t)) =
       (if fired sens s (bass, mid, t) then t else lastBeatT s)"
    by (simp_all add: beat_update_fields)
  show ?thesis
    using e f b l two_spikes[of sens s0 pre b1 m1 t1 gap b2 m2 t2 post]
    by (simp add: beat_energy_def del: fired.simps above.simps beat_step.simps)
qed

theorem beat_rule_strict_debounce_per_call_decay_witness:
  "quiet 1.35 audio_init [(0.1, 0, 0.05)]
   \<and> above 1.35 (beat_run 1.35 audio_init [(0.1, 0, 0.05)]) (1, 0, 0.5)
   \<and> 0.5 - lastBeatT audio_init > 0.26
   \<and> quiet 1.35 (beat_run 1.35 audio_init ([(0.1, 0, 0.05)] @ [(1, 0, 0.5)])) [(0.1, 0, 0.6)]
   \<and> above 1.35 (beat_run 1.35 audio_init ([(0.1, 0, 0.05)] @ [(1, 0, 0.5)] @ [(0.1, 0, 0.6)]))
        (1, 0, 0.9)
   \<and> quiet 1.35 (beat_run 1.35 audio_init
        ([(0.1, 0, 0.05)] @ [(1, 0, 0.5)] @ [(0.1, 0, 0.6)] @ [(1, 0, 0.9)])) []
   \<and> beat_count 1.35 audio_init
        ([(0.1, 0, 0.05)] @ [(1, 0, 0.5)] @ [(0.1, 0, 0.6)] @ [(1, 0, 0.9)] @ []) = 2"
  using beat_rule_strict_debounce_per_call_decay[where sens = "1.35" and s = audio_init
      and bass = 1 and mid = 0 and t = "0.5" and ?s0.0 = audio_init and pre = "[(0.1, 0, 0.05)]"
      and ?b1.0 = 1 and ?m1.0 = 0 and ?t1.0 = "0.5" and gap = "[(0.1, 0, 0.6)]"
      and ?b2.0 = 1 and ?m2.0 = 0 and ?t2.0 = "0.9" and post = "[]"]
  by (simp add: beat_energy_def ema_next_def beat_fires_def beat_update_def Let_def
      minBeatInterval_def audio_init_def)

section \<open>Properties of the frame callback\<close>

lemma bind_all_Nil [simp]: "bind_all L [] st = st"
  by (simp add: bind_all_def)
lemma bind_all_Cons [simp]: "bind_all L (kv # kvs) st = bind_all L kvs (bind L st kv)"
  by (simp add: bind_all_def)

lemma bind_all_append: "bind_all L (xs @ ys) st = bind_all L ys (bind_all L xs st)"
  by (simp add: bind_all_def)

lemma bind_all_lookup:
  "bind_all L kvs st n = (case map_of (rev kvs) n of Some v \<Rightarrow> (if n \<in> L then Some v else st n) | None \<Rightarrow> st n)"
proof (induction kvs arbitrary: st)
  case Nil show ?case by simp
next
  case (Cons kv kvs)
  show ?case
    by (cases kv) (auto simp: Cons bind_def map_add_def split: option.splits)
qed

lemma tick_draws:
  "map snapshot (snd (tick st inp)) = map (draw_uniforms st inp) [0, 1, 2]"
  "gl_uniforms (fst (tick st inp)) = draw_uniforms st inp 2"
  "map blend (snd (tick st inp)) = [False, True, True]"
  "map depthWrite (snd (tick st inp)) = [True, False, False]"
  by (simp_all add: tick_def draw_uniforms_def frame_prefix_def Let_def bind_all_append
      numeral_2_eq_2)

lemma tick_keeps:
  "ctl (fst (tick st inp)) = ctl st"
  "mouseNDC (fst (tick st inp)) = mouseNDC st"
  "locs (fst (tick st inp)) = locs st"
  "fireballOn (fst (tick st inp)) = fireballOn st"
  "t0 (fst (tick st inp)) = t0 st"
  "orb (fst (tick st inp)) = orb st"
  "last (fst (tick st inp)) = now inp"
  by (simp_all add: tick_def Let_def)

lemma map_of_rev_filter:
  "n \<notin> K \<Longrightarrow> map_of (rev (filter (\<lambda>kv. fst kv \<notin> K) kvs)) n = map_of (rev kvs) n"
  by (induction kvs) (auto simp: map_add_def split: option.splits)

lemma pass_keys: "fst ` set (pass_bindings inp k) = {''u_Pass'', ''u_Model'', ''u_ViewProj'', ''u_Color''}"
  by (induction k) (auto simp: render_bindings_def)

lemma pass_same:
  assumes "projectionMatrix inp' = projectionMatrix inp" "viewMatrix inp' = viewMatrix inp"
  shows "pass_bindings inp' k = pass_bindings inp k"
  by (induction k) (simp_all add: render_bindings_def assms)

lemma off_prefix:
  assumes off: "\<not> (fireballOn st \<and> audioOn (ctl st))"
    and same: "ctl st' = ctl st" "mouseNDC st' = mouseNDC st" "fireballOn st' = fireballOn st"
  shows "filter (\<lambda>kv. fst kv \<notin> {''u_Time'', ''u_UpDir''}) (frame_prefix st' inp')
       = filter (\<lambda>kv. fst kv \<notin> {''u_Time'', ''u_UpDir''}) (frame_prefix st inp)"
proof -
  have o: "(fireballOn st \<and> audioOn (ctl st)) = False" using off by simp
  show ?thesis
    by (simp add: frame_prefix_def Let_def same o base_bindings_def audio_off_bindings_def)
qed

lemma rebind_same:
  assumes m: "map_of (rev xs2) n = map_of (rev xs1) n"
    and keys: "fst ` set ys \<subseteq> fst ` set xs1"
  shows "bind_all L xs2 (bind_all L ys st) n = bind_all L xs1 st n"
proof (cases "map_of (rev xs1) n")
  case None
  then have "n \<notin> fst ` set xs1" by (simp add: map_of_eq_None_iff)
  then have "n \<notin> fst ` set (rev ys)" using keys by auto
  then have "map_of (rev ys) n = None" by (simp only: map_of_eq_None_iff not_False_eq_True)
  then show ?thesis using None m by (simp add: bind_all_lookup)
next
  case (Some v)
  then show ?thesis using m by (simp add: bind_all_lookup split: option.splits)
qed

lemma consecutive_frames_off:
  assumes off: "\<not> (fireballOn st \<and> audioOn (ctl st))"
    and cam: "projectionMatrix inp2 = projectionMatrix inp1" "viewMatrix inp2 = viewMatrix inp1"
    and n: "n \<noteq> ''u_Time''" "n \<noteq> ''u_UpDir''"
  shows "draw_uniforms (fst (tick st inp1)) inp2 k n = draw_uniforms st inp1 k n"
proof -
  let ?s1 = "fst (tick st inp1)"
  let ?K = "{''u_Time'', ''u_UpDir''}"
  have kk: "n \<notin> ?K" using n by simp
  have f: "filter (\<lambda>kv. fst kv \<notin> ?K) (frame_prefix ?s1 inp2 @ pass_bindings inp2 k)
      = filter (\<lambda>kv. fst kv \<notin> ?K) (frame_prefix st inp1 @ pass_bindings inp1 k)"
    using off_prefix[OF off, of ?s1 inp2 inp1] pass_same[OF cam, of k]
    by (simp add: tick_keeps)
  have m: "map_of (rev (frame_prefix ?s1 inp2 @ pass_bindings inp2 k)) n
      = map_of (rev (frame_prefix st inp1 @ pass_bindings inp1 k)) n"
    unfolding map_of_rev_filter[OF kk, of "frame_prefix ?s1 inp2 @ pass_bindings inp2 k", symmetric]
      map_of_rev_filter[OF kk, of "frame_prefix st inp1 @ pass_bindings inp1 k", symmetric] f ..
  have keys: "fst ` set (frame_prefix st inp1 @ pass_bindings inp1 2)
      \<subseteq> fst ` set (frame_prefix st inp1 @ pass_bindings inp1 k)"
    by (simp add: image_Un pass_keys)
  show ?thesis
    unfolding draw_uniforms_def[of ?s1] tick_keeps tick_draws(2)
    unfolding draw_uniforms_def
    by (rule rebind_same[OF m keys])
qed

lemma lag_k_range: "0 < dt \<Longrightarrow> 0 < lag_k c dt \<and> lag_k c dt < 1"
proof -
  assume dt: "0 < dt"
  have m: "0 < max (upCatchupTau c) 0.001" by simp
  have "0 < dt / max (upCatchupTau c) 0.001" using dt m by (rule divide_pos_pos)
  then show ?thesis by (simp add: lag_k_def)
qed

lemma square_pos: "(v::real) \<noteq> 0 \<Longrightarrow> 0 < v * v"
  using not_real_square_gt_zero[of v] by blast

lemma lerp_normalize_moves:
  assumes k: "0 < k" "k < 1" and y: "y \<noteq> 0"
  shows "vec3_normalize (vec3_lerp (x, y, z) (1, 0, 0) k) \<noteq> (x, y, z)"
proof
  define wx where "wx = x + k * (1 - x)"
  define wy where "wy = y + k * (0 - y)"
  define wz where "wz = z + k * (0 - z)"
  define len where "len = wx * wx + wy * wy + wz * wz"
  assume eq: "vec3_normalize (vec3_lerp (x, y, z) (1, 0, 0) k) = (x, y, z)"
  have wy: "wy = y * (1 - k)" by (simp add: wy_def algebra_simps)
  have "1 - k \<noteq> 0" using k by simp
  with y have "y * (1 - k) \<noteq> 0" by (rule no_zero_divisors)
  then have "wy \<noteq> 0" unfolding wy .
  then have "0 < wy * wy" by (rule square_pos)
  moreover have "0 \<le> wx * wx" "0 \<le> wz * wz" by simp_all
  ultimately have len: "0 < len" unfolding len_def by linarith
  define c where "c = 1 / sqrt len"
  have l: "vec3_lerp (x, y, z) (1, 0, 0) k = (wx, wy, wz)"
    by (simp add: wx_def wy_def wz_def)
  have n: "vec3_normalize (wx, wy, wz) = (wx * c, wy * c, wz * c)"
    using len by (simp add: vec3_normalize_def Let_def c_def len_def)
  from eq have ex: "wx * c = x" and ey: "wy * c = y" unfolding l n by simp_all
  from ey have "y * ((1 - k) * c) = y * 1" unfolding wy by (simp add: mult.assoc)
  with y have c1: "(1 - k) * c = 1" by simp
  have "x * (1 - k) = (wx * c) * (1 - k)" using ex by simp
  also have "\<dots> = wx * ((1 - k) * c)" by (simp add: mult.commute mult.left_commute)
  also have "\<dots> = wx" using c1 by simp
  finally have "k = 0" by (simp add: wx_def algebra_simps)
  with k show False by simp
qed

lemma normalize_y_nonzero:
  assumes "b \<noteq> 0"
  shows "\<exists>x y z. vec3_normalize (a, b, c) = (x, y, z) \<and> y \<noteq> 0"
proof -
  have "0 < b * b" using assms by (rule square_pos)
  moreover have "0 \<le> a * a" "0 \<le> c * c" by simp_all
  ultimately have len: "0 < a * a + b * b + c * c" by linarith
  then have "sqrt (a * a + b * b + c * c) \<noteq> 0" by simp
  then show ?thesis using len assms by (simp add: vec3_normalize_def Let_def)
qed

lemma tick_upSmooth:
  "upSmooth (fst (tick st inp)) =
     vec3_normalize (vec3_lerp (upSmooth st)
       (vec3_normalize (upTargetX (ctl st), upTargetY (ctl st), upTargetZ (ctl st)))
       (lag_k (ctl st) (max 0 ((now inp - last st) * 0.001))))"
  by (simp add: tick_def Let_def lag_up_def)

lemma draw_lookup:
  assumes "n \<notin> {''u_Pass'', ''u_Model'', ''u_ViewProj'', ''u_Color''}"
  shows "draw_uniforms st inp k n =
     (case map_of (rev (frame_prefix st inp)) n of
        Some v \<Rightarrow> if n \<in> locs st then Some v else gl_uniforms st n
      | None \<Rightarrow> gl_uniforms st n)"
proof -
  have "n \<notin> fst ` set (rev (pass_bindings inp k))" using assms by (simp add: pass_keys)
  then have "map_of (rev (pass_bindings inp k)) n = None"
    by (simp only: map_of_eq_None_iff not_False_eq_True)
  then show ?thesis
    by (simp add: draw_uniforms_def bind_all_lookup map_add_def)
qed

lemma prefix_updir:
  "map_of (rev (frame_prefix st inp)) ''u_UpDir'' = Some (UVec3 (upSmooth (fst (tick st inp))))"
proof -
  have "upSmooth (fst (tick st inp)) =
      snd (lag_up (ctl st) (max 0 ((now inp - last st) * 0.001)) (upSmooth st))"
    by (simp add: tick_def Let_def)
  then show ?thesis
    by (simp add: frame_prefix_def Let_def base_bindings_def audio_off_bindings_def
        audio_bindings_def modulation_bindings_def)
qed

lemma draw_updir:
  assumes "''u_UpDir'' \<in> locs st"
  shows "draw_uniforms st inp k ''u_UpDir'' = Some (UVec3 (upSmooth (fst (tick st inp))))"
  using assms by (simp add: draw_lookup prefix_updir)

lemma catching_up_moves:
  assumes tgt: "vec3_normalize (upTargetX (ctl st), upTargetY (ctl st), upTargetZ (ctl st)) = (1, 0, 0)"
    and up: "upSmooth st = (0, 1, 0)"
    and t1: "last st < now inp1" and t2: "now inp1 < now inp2"
  shows "upSmooth (fst (tick (fst (tick st inp1)) inp2)) \<noteq> upSmooth (fst (tick st inp1))"
proof -
  let ?s1 = "fst (tick st inp1)"
  define k1 where "k1 = lag_k (ctl st) (max 0 ((now inp1 - last st) * 0.001))"
  define k2 where "k2 = lag_k (ctl st) (max 0 ((now inp2 - now inp1) * 0.001))"
  have k1: "0 < k1" "k1 < 1" unfolding k1_def using t1 by (simp_all add: lag_k_range)
  have k2: "0 < k2" "k2 < 1" unfolding k2_def using t2 by (simp_all add: lag_k_range)
  have s1: "upSmooth ?s1 = vec3_normalize (k1, 1 - k1, 0)"
    by (simp add: tick_upSmooth tgt up k1_def)
  have "1 - k1 \<noteq> 0" using k1 by simp
  from normalize_y_nonzero[OF this, of k1 0]
  obtain x y z where u1: "vec3_normalize (k1, 1 - k1, 0) = (x, y, z)" and y: "y \<noteq> 0" by blast
  have s2: "upSmooth (fst (tick ?s1 inp2)) = vec3_normalize (vec3_lerp (x, y, z) (1, 0, 0) k2)"
    unfolding tick_upSmooth[of ?s1 inp2] tick_keeps tgt k2_def s1 u1 ..
  show ?thesis unfolding s2 unfolding s1 u1 by (rule lerp_normalize_moves[OF k2 y])
qed

lemma vec3_normalize_idem: "vec3_normalize (vec3_normalize v) = vec3_normalize v"
proof -
  obtain x y z where v: "v = (x, y, z)" by (cases v)
  define len where "len = x * x + y * y + z * z"
  show ?thesis
  proof (cases "0 < len")
    case True
    define r where "r = 1 / sqrt len"
    have "sqrt len * sqrt len = len" using True by simp
    then have rr: "r * r * len = 1" using True by (simp add: r_def)
    have "(x * r) * (x * r) + (y * r) * (y * r) + (z * r) * (z * r) = r * r * len"
      by (simp add: len_def algebra_simps)
    then have one: "(x * r) * (x * r) + (y * r) * (y * r) + (z * r) * (z * r) = 1"
      using rr by simp
    have n: "vec3_normalize v = (x * r, y * r, z * r)"
      using True by (simp add: v vec3_normalize_def Let_def len_def r_def)
    show ?thesis unfolding n by (simp add: vec3_normalize_def Let_def one)
  next
    case False
    have "0 \<le> len" unfolding len_def by simp
    with False have z: "len = 0" by simp
    have n: "vec3_normalize v = (0, 0, 0)"
      using z by (simp add: v vec3_normalize_def Let_def len_def[symmetric])
    show ?thesis unfolding n by (simp add: vec3_normalize_def)
  qed
qed

lemma vec3_lerp_same: "vec3_lerp a a k = a"
  by (cases a) simp

lemma converged_stays:
  assumes "upSmooth st = vec3_normalize (upTargetX (ctl st), upTargetY (ctl st), upTargetZ (ctl st))"
  shows "upSmooth (fst (tick st inp)) = upSmooth st"
  unfolding tick_upSmooth assms[symmetric] vec3_lerp_same
  by (subst (1 2) assms) (rule vec3_normalize_idem)

lemma prefix_modulated:
  assumes "fireballOn st" "audioOn (ctl st)"
  shows "map_of (rev (frame_prefix st inp)) ''u_FlameLift'' =
      Some (UFloat (min (flameLift (ctl st) + aBass (audio (fst (tick st inp))) * bassToFlameLift (ctl st)) 1.8))"
   and "map_of (rev (frame_prefix st inp)) ''u_GlowStrength'' =
      Some (UFloat (min (glowStrength (ctl st) + aBass (audio (fst (tick st inp))) * bassToGlow (ctl st)) 3.0))"
   and "map_of (rev (frame_prefix st inp)) ''u_CoreLowAmp'' =
      Some (UFloat (min (coreLowAmp (ctl st) + aMid (audio (fst (tick st inp))) * midToCoreLow (ctl st)) 1.0))"
   and "map_of (rev (frame_prefix st inp)) ''u_GrainAmp'' =
      Some (UFloat (min (grainAmp (ctl st) + aTre (audio (fst (tick st inp))) * trebleToGrainHi (ctl st)) 0.6))"
   and "map_of (rev (frame_prefix st inp)) ''u_Exposure'' =
      Some (UFloat (min (exposure (ctl st) + aBeat (audio (fst (tick st inp))) * beatToExposure (ctl st)) 2.0))"
proof -
  have a: "audio (fst (tick st inp)) =
      updateAudioLevels (smoothing (ctl st)) (sensitivity (ctl st)) (audioIn inp) (audio st)"
    using assms by (simp add: tick_def Let_def)
  show "map_of (rev (frame_prefix st inp)) ''u_FlameLift'' =
      Some (UFloat (min (flameLift (ctl st) + aBass (audio (fst (tick st inp))) * bassToFlameLift (ctl st)) 1.8))"
   and "map_of (rev (frame_prefix st inp)) ''u_GlowStrength'' =
      Some (UFloat (min (glowStrength (ctl st) + aBass (audio (fst (tick st inp))) * bassToGlow (ctl st)) 3.0))"
   and "map_of (rev (frame_prefix st inp)) ''u_CoreLowAmp'' =
      Some (UFloat (min (coreLowAmp (ctl st) + aMid (audio (fst (tick st inp))) * midToCoreLow (ctl st)) 1.0))"
   and "map_of (rev (frame_prefix st inp)) ''u_GrainAmp'' =
      Some (UFloat (min (grainAmp (ctl st) + aTre (audio (fst (tick st inp))) * trebleToGrainHi (ctl st)) 0.6))"
   and "map_of (rev (frame_prefix st inp)) ''u_Exposure'' =
      Some (UFloat (min (exposure (ctl st) + aBeat (audio (fst (tick st inp))) * beatToExposure (ctl st)) 2.0))"
    unfolding a using assms
    by (simp_all add: frame_prefix_def Let_def base_bindings_def audio_bindings_def
        modulation_bindings_def)
qed

lemma draws_at:
  "map (\<lambda>d. snapshot d n) (snd (tick st inp)) = map (\<lambda>k. draw_uniforms st inp k n) [0, 1, 2]"
proof -
  have "map (\<lambda>d. snapshot d n) (snd (tick st inp)) = map (\<lambda>f. f n) (map snapshot (snd (tick st inp)))"
    by (simp add: comp_def)
  then show ?thesis unfolding tick_draws by simp
qed

lemma draw_updir_general:
  "draw_uniforms st inp k ''u_UpDir'' =
     (if ''u_UpDir'' \<in> locs st then Some (UVec3 (upSmooth (fst (tick st inp))))
      else gl_uniforms st ''u_UpDir'')"
  by (simp add: draw_lookup prefix_updir)

lemma converged_updir:
  assumes "upSmooth st = vec3_normalize (upTargetX (ctl st), upTargetY (ctl st), upTargetZ (ctl st))"
  shows "draw_uniforms (fst (tick st inp1)) inp2 k ''u_UpDir'' = draw_uniforms st inp1 k ''u_UpDir''"
proof -
  let ?s1 = "fst (tick st inp1)"
  have u1: "upSmooth ?s1 = upSmooth st" by (rule converged_stays[OF assms])
  have "upSmooth ?s1 = vec3_normalize (upTargetX (ctl ?s1), upTargetY (ctl ?s1), upTargetZ (ctl ?s1))"
    unfolding u1 tick_keeps by (rule assms)
  then have u2: "upSmooth (fst (tick ?s1 inp2)) = upSmooth ?s1" by (rule converged_stays)
  show ?thesis
    unfolding draw_updir_general[of ?s1] tick_keeps
    unfolding tick_draws(2) draw_updir_general u2
    by simp
qed

text \<open>
  Claim C5, as stated, fails on the lagged up vector.  In \<open>catching_up_state\<close>
  (audio reactivity off) two consecutive frames, at 16 ms and 32 ms, with the same
  controls, mouse position and camera matrices bind different values of
  \<open>u_UpDir\<close>, a field other than \<open>u_Time\<close>: the up vector is still catching up
  with its target.
\<close>

theorem consecutive_frames_counterexample:
  "\<not> (fireballOn catching_up_state \<and> audioOn (ctl catching_up_state))
   \<and> ctl (fst (tick catching_up_state (frame_at 16))) = ctl catching_up_state
   \<and> mouseNDC (fst (tick catching_up_state (frame_at 16))) = mouseNDC catching_up_state
   \<and> orb (fst (tick catching_up_state (frame_at 16))) = orb catching_up_state
   \<and> projectionMatrix (frame_at 32) = projectionMatrix (frame_at 16)
   \<and> viewMatrix (frame_at 32) = viewMatrix (frame_at 16)
   \<and> ''u_UpDir'' \<noteq> ''u_Time''
   \<and> gl_uniforms (fst (tick (fst (tick catching_up_state (frame_at 16))) (frame_at 32))) ''u_UpDir''
       \<noteq> gl_uniforms (fst (tick catching_up_state (frame_at 16))) ''u_UpDir''"
proof -
  let ?st = catching_up_state
  let ?s1 = "fst (tick ?st (frame_at 16))"
  have l: "''u_UpDir'' \<in> locs ?st"
    by (simp add: catching_up_state_def app_init_def all_locs_def)
  have l1: "''u_UpDir'' \<in> locs ?s1" using l by (simp add: tick_keeps)
  have "upSmooth (fst (tick ?s1 (frame_at 32))) \<noteq> upSmooth ?s1"
    by (rule catching_up_moves)
      (simp_all add: catching_up_state_def app_init_def controls_init_def frame_at_def
        vec3_normalize_def)
  then have "gl_uniforms (fst (tick ?s1 (frame_at 32))) ''u_UpDir'' \<noteq> gl_uniforms ?s1 ''u_UpDir''"
    unfolding tick_draws(2) draw_updir[OF l1] draw_updir[OF l] by simp
  moreover have "\<not> (fireballOn ?st \<and> audioOn (ctl ?st))"
    by (simp add: catching_up_state_def app_init_def)
  ultimately show ?thesis
    by (simp add: tick_keeps frame_at_def)
qed

text \<open>
  Claim C5, amended.  With audio reactivity disabled, two consecutive frames with the
  same camera matrices (the frame callback leaves the controls, the mouse position
  and the orbit as they are) bind identical values for every uniform except
  \<open>u_Time\<close> and \<open>u_UpDir\<close>, in the final uniform state and in each of the three
  draw submissions; \<open>u_UpDir\<close> is identical as well when the lagged up vector has
  already reached the normalised up target.
\<close>

theorem consecutive_frames_identical_but_time_and_updir:
  assumes off: "\<not> (fireballOn st \<and> audioOn (ctl st))"
    and cam: "projectionMatrix inp2 = projectionMatrix inp1" "viewMatrix inp2 = viewMatrix inp1"
  shows "ctl (fst (tick st inp1)) = ctl st \<and> mouseNDC (fst (tick st inp1)) = mouseNDC st
    \<and> orb (fst (tick st inp1)) = orb st
    \<and> (n \<noteq> ''u_Time'' \<and> n \<noteq> ''u_UpDir'' \<longrightarrow>
         gl_uniforms (fst (tick (fst (tick st inp1)) inp2)) n = gl_uniforms (fst (tick st inp1)) n
         \<and> map (\<lambda>d. snapshot d n) (snd (tick (fst (tick st inp1)) inp2))
           = map (\<lambda>d. snapshot d n) (snd (tick st inp1)))
    \<and> (upSmooth st = vec3_normalize (upTargetX (ctl st), upTargetY (ctl st), upTargetZ (ctl st)) \<longrightarrow>
         gl_uniforms (fst (tick (fst (tick st inp1)) inp2)) ''u_UpDir''
           = gl_uniforms (fst (tick st inp1)) ''u_UpDir''
         \<and> map (\<lambda>d. snapshot d ''u_UpDir'') (snd (tick (fst (tick st inp1)) inp2))
           = map (\<lambda>d. snapshot d ''u_UpDir'') (snd (tick st inp1)))"
proof -
  have a: "n \<noteq> ''u_Time'' \<and> n \<noteq> ''u_UpDir'' \<longrightarrow>
         gl_uniforms (fst (tick (fst (tick st inp1)) inp2)) n = gl_uniforms (fst (tick st inp1)) n
         \<and> map (\<lambda>d. snapshot d n) (snd (tick (fst (tick st inp1)) inp2))
           = map (\<lambda>d. snapshot d n) (snd (tick st inp1))"
    unfolding draws_at tick_draws(2)
    using consecutive_frames_off[OF off cam, of n] by simp
  have b: "upSmooth st = vec3_normalize (upTargetX (ctl st), upTargetY (ctl st), upTargetZ (ctl st)) \<longrightarrow>
         gl_uniforms (fst (tick (fst (tick st inp1)) inp2)) ''u_UpDir''
           = gl_uniforms (fst (tick st inp1)) ''u_UpDir''
         \<and> map (\<lambda>d. snapshot d ''u_UpDir'') (snd (tick (fst (tick st inp1)) inp2))
           = map (\<lambda>d. snapshot d ''u_UpDir'') (snd (tick st inp1))"
    unfolding draws_at tick_draws(2)
    using converged_updir[of st inp1 inp2] by simp
  show ?thesis using a b by (simp add: tick_keeps)
qed

theorem consecutive_frames_identical_but_time_and_updir_witness:
  "\<not> (fireballOn app_init \<and> audioOn (ctl app_init))
   \<and> projectionMatrix (frame_at 32) = projectionMatrix (frame_at 16)
   \<and> viewMatrix (frame_at 32) = viewMatrix (frame_at 16)
   \<and> ''u_FlameLift'' \<noteq> ''u_Time'' \<and> ''u_FlameLift'' \<noteq> ''u_UpDir''
   \<and> upSmooth app_init
       = vec3_normalize (upTargetX (ctl app_init), upTargetY (ctl app_init), upTargetZ (ctl app_init))
   \<and> gl_uniforms (fst (tick (fst (tick app_init (frame_at 16))) (frame_at 32))) ''u_FlameLift''
       = gl_uniforms (fst (tick app_init (frame_at 16))) ''u_FlameLift''
   \<and> gl_uniforms (fst (tick (fst (tick app_init (frame_at 16))) (frame_at 32))) ''u_UpDir''
       = gl_uniforms (fst (tick app_init (frame_at 16))) ''u_UpDir''"
proof -
  have off: "\<not> (fireballOn app_init \<and> audioOn (ctl app_init))"
    by (simp add: app_init_def)
  have cam: "projectionMatrix (frame_at 32) = projectionMatrix (frame_at 16)"
    "viewMatrix (frame_at 32) = viewMatrix (frame_at 16)"
    by (simp_all add: frame_at_def)
  have up: "upSmooth app_init
      = vec3_normalize (upTargetX (ctl app_init), upTargetY (ctl app_init), upTargetZ (ctl app_init))"
    by (simp add: app_init_def controls_init_def vec3_normalize_def)
  show ?thesis
    using off cam up
      consecutive_frames_identical_but_time_and_updir[OF off cam, where n = "''u_FlameLift''"]
    by simp
qed

lemma modulated_le: "modulated base level g cap \<le> cap"
  unfolding modulated_def by (rule min.cobounded2)

text \<open>
  Claim C6.  With audio reactivity enabled (Fireball mode on and the audio control
  on), whatever the levels the analysis leaves and whatever the base values, the
  frame binds \<open>u_FlameLift\<close>, \<open>u_GlowStrength\<close>, \<open>u_CoreLowAmp\<close>, \<open>u_GrainAmp\<close> and
  \<open>u_Exposure\<close> (where the program has the uniform) to base plus level times gain
  capped at 1.8, 3.0, 1.0, 0.6 and 2.0, in the final state and in every draw; so
  each is at most its ceiling.
\<close>

theorem audio_modulation_ceilings:
  assumes on: "fireballOn st" "audioOn (ctl st)"
  shows "audio (fst (tick st inp))
         = updateAudioLevels (smoothing (ctl st)) (sensitivity (ctl st)) (audioIn inp) (audio st)
    \<and> (''u_FlameLift'' \<in> locs st \<longrightarrow>
         map (\<lambda>d. snapshot d ''u_FlameLift'') (snd (tick st inp))
         = replicate 3 (Some (UFloat (modulated (flameLift (ctl st))
             (aBass (audio (fst (tick st inp)))) (bassToFlameLift (ctl st)) 1.8))))
    \<and> (''u_GlowStrength'' \<in> locs st \<longrightarrow>
         map (\<lambda>d. snapshot d ''u_GlowStrength'') (snd (tick st inp))
         = replicate 3 (Some (UFloat (modulated (glowStrength (ctl st))
             (aBass (audio (fst (tick st inp)))) (bassToGlow (ctl st)) 3.0))))
    \<and> (''u_CoreLowAmp'' \<in> locs st \<longrightarrow>
         map (\<lambda>d. snapshot d ''u_CoreLowAmp'') (snd (tick st inp))
         = replicate 3 (Some (UFloat (modulated (coreLowAmp (ctl st))
             (aMid (audio (fst (tick st inp)))) (midToCoreLow (ctl st)) 1.0))))
    \<and> (''u_GrainAmp'' \<in> locs st \<longrightarrow>
         map (\<lambda>d. snapshot d ''u_GrainAmp'') (snd (tick st inp))
         = replicate 3 (Some (UFloat (modulated (grainAmp (ctl st))
             (aTre (audio (fst (tick st inp)))) (trebleToGrainHi (ctl st)) 0.6))))
    \<and> (''u_Exposure'' \<in> locs st \<longrightarrow>
         map (\<lambda>d. snapshot d ''u_Exposure'') (snd (tick st inp))
         = replicate 3 (Some (UFloat (modulated (exposure (ctl st))
             (aBeat (audio (fst (tick st inp)))) (beatToExposure (ctl st)) 2.0))))
    \<and> modulated base level g 1.8 \<le> 1.8 \<and> modulated base level g 3.0 \<le> 3.0
    \<and> modulated base level g 1.0 \<le> 1.0 \<and> modulated base level g 0.6 \<le> 0.6
    \<and> modulated base level g 2.0 \<le> 2.0"
proof -
  have a: "audio (fst (tick st inp))
      = updateAudioLevels (smoothing (ctl st)) (sensitivity (ctl st)) (audioIn inp) (audio st)"
    using on by (simp add: tick_def Let_def)
  have c: "modulated base level g 1.8 \<le> 1.8 \<and> modulated base level g 3.0 \<le> 3.0
    \<and> modulated base level g 1.0 \<le> 1.0 \<and> modulated base level g 0.6 \<le> 0.6
    \<and> modulated base level g 2.0 \<le> 2.0"
    by (intro conjI modulated_le)
  have d: "''u_FlameLift'' \<in> locs st \<longrightarrow>
         map (\<lambda>d. snapshot d ''u_FlameLift'') (snd (tick st inp))
         = replicate 3 (Some (UFloat (modulated (flameLift (ctl st))
             (aBass (audio (fst (tick st inp)))) (bassToFlameLift (ctl st)) 1.8)))"
    "''u_GlowStrength'' \<in> locs st \<longrightarrow>
         map (\<lambda>d. snapshot d ''u_GlowStrength'') (snd (tick st inp))
         = replicate 3 (Some (UFloat (modulated (glowStrength (ctl st))
             (aBass (audio (fst (tick st inp)))) (bassToGlow (ctl st)) 3.0)))"
    "''u_CoreLowAmp'' \<in> locs st \<longrightarrow>
         map (\<lambda>d. snapshot d ''u_CoreLowAmp'') (snd (tick st inp))
         = replicate 3 (Some (UFloat (modulated (coreLowAmp (ctl st))
             (aMid (audio (fst (tick st inp)))) (midToCoreLow (ctl st)) 1.0)))"
    "''u_GrainAmp'' \<in> locs st \<longrightarrow>
         map (\<lambda>d. snapshot d ''u_GrainAmp'') (snd (tick st inp))
         = replicate 3 (Some (UFloat (modulated (grainAmp (ctl st))
             (aTre (audio (fst (tick st inp)))) (trebleToGrainHi (ctl st)) 0.6)))"
    "''u_Exposure'' \<in> locs st \<longrightarrow>
         map (\<lambda>d. snapshot d ''u_Exposure'') (snd (tick st inp))
         = replicate 3 (Some (UFloat (modulated (exposure (ctl st))
             (aBeat (audio (fst (tick st inp)))) (beatToExposure (ctl st)) 2.0)))"
    unfolding draws_at
    by (simp_all add: draw_lookup prefix_modulated[OF on] modulated_def numeral_3_eq_3)
  show ?thesis using a c d by simp
qed

theorem audio_modulation_ceilings_witness:
  "fireballOn (app_init\<lparr>fireballOn := True\<rparr>) \<and> audioOn (ctl (app_init\<lparr>fireballOn := True\<rparr>))
   \<and> ''u_FlameLift'' \<in> locs (app_init\<lparr>fireballOn := True\<rparr>)
   \<and> ''u_GlowStrength'' \<in> locs (app_init\<lparr>fireballOn := True\<rparr>)
   \<and> ''u_CoreLowAmp'' \<in> locs (app_init\<lparr>fireballOn := True\<rparr>)
   \<and> ''u_GrainAmp'' \<in> locs (app_init\<lparr>fireballOn := True\<rparr>)
   \<and> ''u_Exposure'' \<in> locs (app_init\<lparr>fireballOn := True\<rparr>)
   \<and> map (\<lambda>d. snapshot d ''u_FlameLift'') (snd (tick (app_init\<lparr>fireballOn := True\<rparr>) (frame_at 16)))
       = replicate 3 (Some (UFloat (modulated (flameLift (ctl (app_init\<lparr>fireballOn := True\<rparr>)))
           (aBass (audio (fst (tick (app_init\<lparr>fireballOn := True\<rparr>) (frame_at 16)))))
           (bassToFlameLift (ctl (app_init\<lparr>fireballOn := True\<rparr>))) 1.8)))"
proof -
  have on: "fireballOn (app_init\<lparr>fireballOn := True\<rparr>)"
    "audioOn (ctl (app_init\<lparr>fireballOn := True\<rparr>))"
    by (simp_all add: app_init_def controls_init_def)
  have l: "''u_FlameLift'' \<in> locs (app_init\<lparr>fireballOn := True\<rparr>)"
    "''u_GlowStrength'' \<in> locs (app_init\<lparr>fireballOn := True\<rparr>)"
    "''u_CoreLowAmp'' \<in> locs (app_init\<lparr>fireballOn := True\<rparr>)"
    "''u_GrainAmp'' \<in> locs (app_init\<lparr>fireballOn := True\<rparr>)"
    "''u_Exposure'' \<in> locs (app_init\<lparr>fireballOn := True\<rparr>)"
    by (simp_all add: app_init_def all_locs_def)
  show ?thesis
    using on l audio_modulation_ceilings[OF on, of "frame_at 16"]
    by simp
qed

end
